theory Spec2Isabelle
  imports Complex_Main
begin

section \<open>Numeric model\<close>

text \<open>
  Python floats are modelled as the real numbers they denote, so float arithmetic is exact
  here. The one non-numeric float that numpy can produce in this code is \<open>nan\<close>, the
  result of \<open>np.median\<close> and \<open>np.mean\<close> on an empty array: a value computed by numpy is an
  \<open>npfloat\<close>, either \<open>Num r\<close> or \<open>NaN\<close>, and every comparison with \<open>NaN\<close> is false, as in
  IEEE arithmetic. The samples of a series are finite and are plain reals.
\<close>

datatype npfloat = Num real | NaN

fun nf_le :: "npfloat \<Rightarrow> npfloat \<Rightarrow> bool" where
  "nf_le (Num a) (Num b) = (a \<le> b)"
| "nf_le _ _ = False"

fun nf_lt :: "npfloat \<Rightarrow> npfloat \<Rightarrow> bool" where
  "nf_lt (Num a) (Num b) = (a < b)"
| "nf_lt _ _ = False"

fun nf_eq :: "npfloat \<Rightarrow> npfloat \<Rightarrow> bool" where
  "nf_eq (Num a) (Num b) = (a = b)"
| "nf_eq _ _ = False"

fun nf_add :: "npfloat \<Rightarrow> npfloat \<Rightarrow> npfloat" where
  "nf_add (Num a) (Num b) = Num (a + b)"
| "nf_add _ _ = NaN"

fun nf_sub :: "npfloat \<Rightarrow> npfloat \<Rightarrow> npfloat" where
  "nf_sub (Num a) (Num b) = Num (a - b)"
| "nf_sub _ _ = NaN"

text \<open>An array that holds a \<open>nan\<close> has no finite values to reduce.\<close>

fun finite_values :: "npfloat list \<Rightarrow> real list option" where
  "finite_values [] = Some []"
| "finite_values (NaN # vs) = None"
| "finite_values (Num r # vs) = (case finite_values vs of None \<Rightarrow> None | Some rs \<Rightarrow> Some (r # rs))"

text \<open>
  \<open>np.median\<close>: the middle of the sorted array, the mean of the two middle elements when
  the length is even, and \<open>nan\<close> on an empty array.
\<close>

definition np_median :: "real list \<Rightarrow> npfloat" where
  "np_median xs =
     (if xs = [] then NaN
      else let s = sort xs; n = length s
           in if odd n then Num (s ! (n div 2))
              else Num ((s ! (n div 2 - 1) + s ! (n div 2)) / 2))"

definition np_median_f :: "npfloat list \<Rightarrow> npfloat" where
  "np_median_f vs = (case finite_values vs of None \<Rightarrow> NaN | Some rs \<Rightarrow> np_median rs)"

text \<open>\<open>np.mean\<close>: the arithmetic mean, \<open>nan\<close> on an empty array.\<close>

definition np_mean :: "real list \<Rightarrow> npfloat" where
  "np_mean xs = (if xs = [] then NaN else Num (sum_list xs / real (length xs)))"

section \<open>Common signal primitives (ctg\_analysis/common.py)\<close>

text \<open>
  \<open>calc_baseline(fhr_series, window_size=10)\<close>: samples outside \<open>[50, 200]\<close> are dropped;
  fewer than \<open>window_size\<close> remaining samples give their plain median, otherwise the median
  of the medians of all windows \<open>filtered[i:i + window_size]\<close>.
\<close>

definition calc_baseline :: "real list \<Rightarrow> nat \<Rightarrow> npfloat" where
  "calc_baseline fhr_series window_size =
     (if fhr_series = [] then Num 0
      else let filtered = filter (\<lambda>fhr. 50 \<le> fhr \<and> fhr \<le> 200) fhr_series
           in if filtered = [] then Num 0
              else if length filtered < window_size then np_median filtered
              else np_median_f
                     (map (\<lambda>i. np_median (take window_size (drop i filtered)))
                          [0 ..< length filtered - window_size + 1]))"

text \<open>
  \<open>detect_accelerations(fhr_series, baseline, ga_weeks=37)\<close>. The loop keeps
  \<open>accelerations_count\<close>, \<open>in_acceleration\<close> and \<open>acceleration_length\<close>; the equation for the
  empty list is the check of the last acceleration after the loop.
\<close>

fun accel_loop :: "npfloat \<Rightarrow> int \<Rightarrow> nat \<Rightarrow> bool \<Rightarrow> nat \<Rightarrow> real list \<Rightarrow> nat" where
  "accel_loop baseline threshold accelerations_count in_acceleration acceleration_length [] =
     (if in_acceleration \<and> 15 \<le> acceleration_length then accelerations_count + 1
      else accelerations_count)"
| "accel_loop baseline threshold accelerations_count in_acceleration acceleration_length (fhr # rest) =
     (if nf_le (nf_add baseline (Num (of_int threshold))) (Num fhr) then
        (if \<not> in_acceleration then accel_loop baseline threshold accelerations_count True 1 rest
         else accel_loop baseline threshold accelerations_count True (acceleration_length + 1) rest)
      else
        accel_loop baseline threshold
          (if in_acceleration \<and> 15 \<le> acceleration_length then accelerations_count + 1
           else accelerations_count)
          False 0 rest)"

definition detect_accelerations :: "real list \<Rightarrow> npfloat \<Rightarrow> int \<Rightarrow> nat" where
  "detect_accelerations fhr_series baseline ga_weeks =
     (if fhr_series = [] \<or> nf_eq baseline (Num 0) then 0
      else let threshold = (if ga_weeks < 32 then 10 else 15)
           in accel_loop baseline threshold 0 False 0 fhr_series)"

text \<open>
  \<open>detect_decelerations(fhr_series, baseline, threshold=15)\<close>: the same loop on
  \<open>fhr <= baseline - threshold\<close>. The threshold is a parameter of its own and the function
  has no gestational-age parameter.
\<close>

fun decel_loop :: "npfloat \<Rightarrow> int \<Rightarrow> nat \<Rightarrow> bool \<Rightarrow> nat \<Rightarrow> real list \<Rightarrow> nat" where
  "decel_loop baseline threshold decelerations_count in_deceleration deceleration_length [] =
     (if in_deceleration \<and> 15 \<le> deceleration_length then decelerations_count + 1
      else decelerations_count)"
| "decel_loop baseline threshold decelerations_count in_deceleration deceleration_length (fhr # rest) =
     (if nf_le (Num fhr) (nf_sub baseline (Num (of_int threshold))) then
        (if \<not> in_deceleration then decel_loop baseline threshold decelerations_count True 1 rest
         else decel_loop baseline threshold decelerations_count True (deceleration_length + 1) rest)
      else
        decel_loop baseline threshold
          (if in_deceleration \<and> 15 \<le> deceleration_length then decelerations_count + 1
           else decelerations_count)
          False 0 rest)"

definition detect_decelerations :: "real list \<Rightarrow> npfloat \<Rightarrow> int \<Rightarrow> nat" where
  "detect_decelerations fhr_series baseline threshold =
     (if fhr_series = [] \<or> nf_eq baseline (Num 0) then 0
      else decel_loop baseline threshold 0 False 0 fhr_series)"

section \<open>Variability (ctg\_analysis/variability.py)\<close>

text \<open>
  \<open>calculate_short_term_variability\<close>: the mean of the absolute differences of successive
  samples. \<open>calculate_variability\<close> is modelled at its default \<open>method="short_term"\<close>, the only
  way the classifiers and the analysis service call it; the guard on short input comes before
  the dispatch on the method.
\<close>

definition calculate_short_term_variability :: "real list \<Rightarrow> npfloat" where
  "calculate_short_term_variability fhr_series =
     (if length fhr_series < 2 then Num 0
      else np_mean (map (\<lambda>i. \<bar>fhr_series ! (i + 1) - fhr_series ! i\<bar>)
                        [0 ..< length fhr_series - 1]))"

definition calculate_variability :: "real list \<Rightarrow> npfloat" where
  "calculate_variability fhr_series =
     (if fhr_series = [] \<or> length fhr_series < 2 then Num 0
      else calculate_short_term_variability fhr_series)"

definition classify_variability :: "npfloat \<Rightarrow> string" where
  "classify_variability variability =
     (if nf_eq variability (Num 0) then ''absent''
      else if nf_lt variability (Num 5) then ''minimal''
      else if nf_le (Num 5) variability \<and> nf_le variability (Num 25) then ''moderate''
      else ''marked'')"

section \<open>Risk factors (ctg\_analysis/risk\_adjustment.py)\<close>

text \<open>
  A risk-factor dictionary is the list of its items. \<open>RISK_SCORES\<close> is the table of weights;
  \<open>calculate_risk_score\<close> adds the weight of every item that is set and is a key of the table.
\<close>

definition RISK_SCORES :: "string \<Rightarrow> int option" where
  "RISK_SCORES = map_of
     [(''diabetes'', 2), (''anemia'', 1), (''hypertension'', 2), (''preeclampsia'', 3),
      (''infections'', 2), (''multiple'', 2), (''placenta'', 3), (''term'', 2)]"

fun calculate_risk_score_loop :: "int \<Rightarrow> (string \<times> bool) list \<Rightarrow> int" where
  "calculate_risk_score_loop score [] = score"
| "calculate_risk_score_loop score ((key, val) # items) =
     (case RISK_SCORES key of
        Some w \<Rightarrow> calculate_risk_score_loop (if val then score + w else score) items
      | None \<Rightarrow> calculate_risk_score_loop score items)"

definition calculate_risk_score :: "(string \<times> bool) list \<Rightarrow> int" where
  "calculate_risk_score risk_factors = calculate_risk_score_loop 0 risk_factors"

text \<open>
  A dictionary with a fixed set of keys is a record. A field is named after its key, behind a
  short tag for the record (\<open>adj_code\<close> is the key \<open>"code"\<close> of an adjustment), so that the
  parameters and variables of the source keep their names. \<open>adjustment_reason\<close> is a text
  built around the risk score, or \<open>None\<close>; the record keeps the score the text is built around.
\<close>

record adjustment =
  adj_original_label :: string
  adj_adjusted_label :: string
  adj_code :: int
  adj_adjustment_applied :: bool
  adj_risk_score :: int
  adj_adjustment_reason :: "int option"

definition figo_code_map :: "string \<Rightarrow> int option" where
  "figo_code_map = map_of [(''Normal'', 0), (''Suspicious'', 1), (''Pathological'', 2)]"

definition nichd_code_map :: "string \<Rightarrow> int option" where
  "nichd_code_map = map_of [(''Category I'', 0), (''Category II'', 1), (''Category III'', 2)]"

text \<open>\<open>d.get(key, default)\<close> on a dictionary of codes.\<close>

definition get_or :: "('k \<Rightarrow> 'v option) \<Rightarrow> 'k \<Rightarrow> 'v \<Rightarrow> 'v" where
  "get_or d k dflt = (case d k of Some v \<Rightarrow> v | None \<Rightarrow> dflt)"

definition adjust_figo_classification :: "string \<Rightarrow> int \<Rightarrow> adjustment" where
  "adjust_figo_classification base_label risk_score =
     (let (adjusted, applied) =
            (if 4 \<le> risk_score then
               (if base_label = ''Normal'' then (''Suspicious'', True)
                else if base_label = ''Suspicious'' then (''Pathological'', True)
                else (base_label, False))
             else (base_label, False))
      in \<lparr>adj_original_label = base_label,
          adj_adjusted_label = adjusted,
          adj_code = get_or figo_code_map adjusted 0,
          adj_adjustment_applied = applied,
          adj_risk_score = risk_score,
          adj_adjustment_reason = (if applied then Some risk_score else None)\<rparr>)"

definition adjust_nichd_classification :: "string \<Rightarrow> int \<Rightarrow> adjustment" where
  "adjust_nichd_classification base_label risk_score =
     (let (adjusted, applied) =
            (if 4 \<le> risk_score then
               (if base_label = ''Category I'' then (''Category II'', True)
                else if base_label = ''Category II'' then (''Category III'', True)
                else (base_label, False))
             else (base_label, False))
      in \<lparr>adj_original_label = base_label,
          adj_adjusted_label = adjusted,
          adj_code = get_or nichd_code_map adjusted 0,
          adj_adjustment_applied = applied,
          adj_risk_score = risk_score,
          adj_adjustment_reason = (if applied then Some risk_score else None)\<rparr>)"

section \<open>Python's round\<close>

text \<open>
  \<open>round(x, ndigits)\<close> rounds to the nearest multiple of \<open>10 ** -ndigits\<close>, a tie to the
  even one; \<open>round(nan, ndigits)\<close> is \<open>nan\<close>.
\<close>

definition round_half_even :: "real \<Rightarrow> int" where
  "round_half_even y =
     (let f = \<lfloor>y\<rfloor>; d = y - of_int f
      in if d < 1 / 2 then f else if 1 / 2 < d then f + 1 else if even f then f else f + 1)"

definition py_round :: "real \<Rightarrow> nat \<Rightarrow> real" where
  "py_round x ndigits = of_int (round_half_even (x * 10 ^ ndigits)) / 10 ^ ndigits"

fun np_round :: "npfloat \<Rightarrow> nat \<Rightarrow> npfloat" where
  "np_round (Num x) ndigits = Num (py_round x ndigits)"
| "np_round NaN ndigits = NaN"

section \<open>FIGO/NICE classification (ctg\_analysis/figo\_nice.py)\<close>

definition evaluate_baseline :: "npfloat \<Rightarrow> string" where
  "evaluate_baseline baseline =
     (if nf_le (Num 110) baseline \<and> nf_le baseline (Num 160) then ''reassuring''
      else if nf_le (Num 100) baseline \<and> nf_lt baseline (Num 110)
              \<or> nf_le (Num 161) baseline \<and> nf_le baseline (Num 180) then ''non-reassuring''
      else ''abnormal'')"

definition evaluate_variability :: "npfloat \<Rightarrow> string \<Rightarrow> string" where
  "evaluate_variability variability var_class =
     (if var_class = ''moderate'' then ''reassuring''
      else if List.member [''minimal'', ''marked''] var_class then ''non-reassuring''
      else ''abnormal'')"

definition evaluate_accelerations :: "nat \<Rightarrow> nat \<Rightarrow> string" where
  "evaluate_accelerations accels duration_minutes =
     (if 2 \<le> accels then ''reassuring'' else ''non-reassuring'')"

definition evaluate_decelerations :: "nat \<Rightarrow> string" where
  "evaluate_decelerations decels_count =
     (if decels_count = 0 then ''reassuring''
      else if decels_count < 3 then ''non-reassuring''
      else ''abnormal'')"

text \<open>The nested dictionaries of a classification result, one record for each shape.\<close>

record classification =
  cls_label :: string
  cls_code :: int

record risk_adjustment_info =
  ra_applied :: bool
  ra_risk_score :: int
  ra_reason :: "int option"

record evaluations =
  ev_baseline :: string
  ev_variability :: string
  ev_accelerations :: string
  ev_decelerations :: string

record figo_result =
  figo_source :: string
  figo_baseline :: npfloat
  figo_variability :: npfloat
  figo_variability_class :: string
  figo_accelerations :: nat
  figo_decelerations :: nat
  figo_evaluations :: evaluations
  figo_base_classification :: classification
  figo_final_classification :: classification
  figo_risk_adjustment :: risk_adjustment_info
  figo_label :: string
  figo_code :: int

definition classify_figo :: "real list \<Rightarrow> (string \<times> bool) list \<Rightarrow> int \<Rightarrow> figo_result" where
  "classify_figo fhr_series risk_factors ga_weeks =
     (let baseline = calc_baseline fhr_series 10;
          variability_value = calculate_variability fhr_series;
          var_class = classify_variability variability_value;
          accels = detect_accelerations fhr_series baseline ga_weeks;
          decels_count = detect_decelerations fhr_series baseline 15;
          baseline_eval = evaluate_baseline baseline;
          variability_eval = evaluate_variability variability_value var_class;
          accels_eval = evaluate_accelerations accels 20;
          decels_eval = evaluate_decelerations decels_count;
          evals = [baseline_eval, variability_eval, accels_eval, decels_eval];
          (base_label, base_code) =
            (if list_all (\<lambda>ev. ev = ''reassuring'') evals then (''Normal'', 0)
             else if List.member evals ''abnormal'' then (''Pathological'', 2)
             else (''Suspicious'', 1));
          risk_score = calculate_risk_score risk_factors;
          adjustment = adjust_figo_classification base_label risk_score
      in \<lparr>figo_source = ''FIGO/NICE'',
          figo_baseline = np_round baseline 1,
          figo_variability = np_round variability_value 1,
          figo_variability_class = var_class,
          figo_accelerations = accels,
          figo_decelerations = decels_count,
          figo_evaluations = \<lparr>ev_baseline = baseline_eval,
                               ev_variability = variability_eval,
                               ev_accelerations = accels_eval,
                               ev_decelerations = decels_eval\<rparr>,
          figo_base_classification = \<lparr>cls_label = base_label, cls_code = base_code\<rparr>,
          figo_final_classification = \<lparr>cls_label = adj_adjusted_label adjustment,
                                        cls_code = adj_code adjustment\<rparr>,
          figo_risk_adjustment = \<lparr>ra_applied = adj_adjustment_applied adjustment,
                                   ra_risk_score = risk_score,
                                   ra_reason = adj_adjustment_reason adjustment\<rparr>,
          figo_label = adj_adjusted_label adjustment,
          figo_code = adj_code adjustment\<rparr>)"

section \<open>NICHD/ACOG classification (ctg\_analysis/nichd\_acog.py)\<close>

definition classify_nichd_category ::
    "npfloat \<Rightarrow> string \<Rightarrow> nat \<Rightarrow> nat \<Rightarrow> string \<Rightarrow> string \<times> int" where
  "classify_nichd_category baseline var_class accels decels_count dec_pattern =
     (if nf_le (Num 110) baseline \<and> nf_le baseline (Num 160)
         \<and> var_class = ''moderate''
         \<and> List.member [''none'', ''early''] dec_pattern then (''Category I'', 0)
      else if var_class = ''absent''
              \<and> (List.member [''late'', ''variable''] dec_pattern
                   \<or> nf_lt baseline (Num 110)
                   \<or> 3 < decels_count) then (''Category III'', 2)
      else (''Category II'', 1))"

record deceleration_info =
  dec_count :: nat
  dec_pattern_name :: string

record nichd_result =
  nichd_source :: string
  nichd_baseline :: npfloat
  nichd_variability :: npfloat
  nichd_variability_class :: string
  nichd_accelerations :: nat
  nichd_decelerations :: deceleration_info
  nichd_base_classification :: classification
  nichd_final_classification :: classification
  nichd_risk_adjustment :: risk_adjustment_info
  nichd_label :: string
  nichd_code :: int

definition classify_nichd :: "real list \<Rightarrow> (string \<times> bool) list \<Rightarrow> int \<Rightarrow> nichd_result" where
  "classify_nichd fhr_series risk_factors ga_weeks =
     (let baseline = calc_baseline fhr_series 10;
          variability_value = calculate_variability fhr_series;
          var_class = classify_variability variability_value;
          accels = detect_accelerations fhr_series baseline ga_weeks;
          decels_count = detect_decelerations fhr_series baseline 15;
          dec_pattern =
            (if decels_count = 0 then ''none''
             else if decels_count \<le> 2 then ''early''
             else if decels_count \<le> 5 then ''variable''
             else ''late'');
          (base_label, base_code) =
            classify_nichd_category baseline var_class accels decels_count dec_pattern;
          risk_score = calculate_risk_score risk_factors;
          adjustment = adjust_nichd_classification base_label risk_score
      in \<lparr>nichd_source = ''NICHD/ACOG'',
          nichd_baseline = np_round baseline 1,
          nichd_variability = np_round variability_value 1,
          nichd_variability_class = var_class,
          nichd_accelerations = accels,
          nichd_decelerations = \<lparr>dec_count = decels_count, dec_pattern_name = dec_pattern\<rparr>,
          nichd_base_classification = \<lparr>cls_label = base_label, cls_code = base_code\<rparr>,
          nichd_final_classification = \<lparr>cls_label = adj_adjusted_label adjustment,
                                         cls_code = adj_code adjustment\<rparr>,
          nichd_risk_adjustment = \<lparr>ra_applied = adj_adjustment_applied adjustment,
                                    ra_risk_score = risk_score,
                                    ra_reason = adj_adjustment_reason adjustment\<rparr>,
          nichd_label = adj_adjusted_label adjustment,
          nichd_code = adj_code adjustment\<rparr>)"

section \<open>Hypoxia risk (ctg\_analysis/hypoxia.py)\<close>

text \<open>The exceptions the modelled code can raise.\<close>

datatype py_error = IndexError | ValueError | AttributeError

definition detect_accelerations_in_window :: "real list \<Rightarrow> npfloat \<Rightarrow> int \<Rightarrow> bool \<times> nat" where
  "detect_accelerations_in_window window_fhr baseline threshold =
     (let accel_present =
            list_ex (\<lambda>fhr. nf_le (nf_add baseline (Num (of_int threshold))) (Num fhr)) window_fhr;
          accel_count =
            length (filter (\<lambda>fhr. nf_le (nf_add baseline (Num (of_int threshold))) (Num fhr)) window_fhr)
      in (accel_present, accel_count))"

definition detect_decelerations_in_window :: "real list \<Rightarrow> npfloat \<Rightarrow> int \<Rightarrow> bool \<times> nat" where
  "detect_decelerations_in_window window_fhr baseline threshold =
     (let decel_present =
            list_ex (\<lambda>fhr. nf_le (Num fhr) (nf_sub baseline (Num (of_int threshold)))) window_fhr;
          decel_count =
            length (filter (\<lambda>fhr. nf_le (Num fhr) (nf_sub baseline (Num (of_int threshold)))) window_fhr)
      in (decel_present, decel_count))"

fun count_contractions_loop :: "real \<Rightarrow> nat \<Rightarrow> bool \<Rightarrow> real list \<Rightarrow> nat" where
  "count_contractions_loop threshold contractions in_contraction [] = contractions"
| "count_contractions_loop threshold contractions in_contraction (uc # rest) =
     (if threshold < uc then
        (if \<not> in_contraction then count_contractions_loop threshold (contractions + 1) True rest
         else count_contractions_loop threshold contractions in_contraction rest)
      else count_contractions_loop threshold contractions False rest)"

definition count_contractions :: "real list \<Rightarrow> real \<Rightarrow> nat" where
  "count_contractions uc_series threshold =
     (if uc_series = [] then 0 else count_contractions_loop threshold 0 False uc_series)"

text \<open>
  \<open>calculate_window_risk\<close>. The variability is the caller's value, which the function also
  tests for \<open>None\<close>.
\<close>

definition calculate_window_risk ::
    "npfloat \<Rightarrow> npfloat option \<Rightarrow> nat \<Rightarrow> bool \<Rightarrow> bool \<Rightarrow> nat \<Rightarrow> nat \<Rightarrow> real" where
  "calculate_window_risk baseline variability uc_count accel_present decel_present accel_count decel_count =
     (let baseline_score :: int =
            (if nf_eq baseline (Num 0) then 2
             else if nf_le (Num 110) baseline \<and> nf_le baseline (Num 160) then 0
             else if nf_le (Num 105) baseline \<and> nf_lt baseline (Num 110)
                     \<or> nf_lt (Num 160) baseline \<and> nf_le baseline (Num 165) then 1
             else 2);
          var_score :: int =
            (case variability of
               None \<Rightarrow> 2
             | Some v \<Rightarrow>
                 if nf_eq v (Num 0) then 2
                 else if nf_le (Num 5) v then 0
                 else if nf_le (Num 3) v \<and> nf_lt v (Num 5) then 1
                 else 2);
          dec_score :: int = (if decel_present then 2 else 0);
          acc_score :: int = (if accel_present then 0 else 1);
          acc_count_score :: int = max 0 (min 1 (2 - int accel_count));
          dec_count_score :: int = min 2 (int (decel_count div 5));
          total_score = baseline_score + var_score + dec_score + acc_score + acc_count_score + dec_count_score
      in max 0 (min 1 (real_of_int total_score / 10)))"

text \<open>\<open>range(i, stop, step)\<close> for a positive step, counting up from a start that is not negative.\<close>

function py_range :: "nat \<Rightarrow> int \<Rightarrow> nat \<Rightarrow> nat list" where
  "py_range i stop step = (if 0 < step \<and> int i < stop then i # py_range (i + step) stop step else [])"
  by pat_completeness auto
termination
  by (relation "measure (\<lambda>(i, stop, step). nat (stop - int i))") auto

record hypoxia_point =
  pt_time :: real
  pt_risk :: real

text \<open>
  The body of the loop of \<open>calculate_hypoxia_risk\<close> for the window that starts at index \<open>i\<close>.
  Reading \<open>time_series[i]\<close> beyond the end of the time stamps raises \<open>IndexError\<close>.
\<close>

definition hypoxia_window ::
    "real list \<Rightarrow> real list \<Rightarrow> npfloat option \<Rightarrow> real list \<Rightarrow> nat \<Rightarrow> nat \<Rightarrow> py_error + hypoxia_point" where
  "hypoxia_window fhr_series uc_series variability_value time_series window_size i =
     (let window_fhr = take window_size (drop i fhr_series);
          window_uc = (if i + window_size \<le> length uc_series
                       then take window_size (drop i uc_series) else []);
          baseline = (if window_fhr \<noteq> [] then np_median window_fhr else Num 0);
          (accel_present, accel_count) = detect_accelerations_in_window window_fhr baseline 15;
          (decel_present, decel_count) = detect_decelerations_in_window window_fhr baseline 15;
          uc_count = (if window_uc \<noteq> [] then count_contractions window_uc 15 else 0);
          risk = calculate_window_risk baseline variability_value uc_count
                   accel_present decel_present accel_count decel_count
      in if i + window_size div 2 < length time_series
         then Inr \<lparr>pt_time = time_series ! (i + window_size div 2), pt_risk = risk\<rparr>
         else if i < length time_series
         then Inr \<lparr>pt_time = time_series ! i, pt_risk = risk\<rparr>
         else Inl IndexError)"

fun hypoxia_loop ::
    "real list \<Rightarrow> real list \<Rightarrow> npfloat option \<Rightarrow> real list \<Rightarrow> nat \<Rightarrow> hypoxia_point list \<Rightarrow> nat list
       \<Rightarrow> py_error + hypoxia_point list" where
  "hypoxia_loop fhr_series uc_series variability_value time_series window_size results [] = Inr results"
| "hypoxia_loop fhr_series uc_series variability_value time_series window_size results (i # rest) =
     (case hypoxia_window fhr_series uc_series variability_value time_series window_size i of
        Inl e \<Rightarrow> Inl e
      | Inr point \<Rightarrow>
          hypoxia_loop fhr_series uc_series variability_value time_series window_size
            (results @ [point]) rest)"

text \<open>
  \<open>calculate_hypoxia_risk(fhr_series, uc_series, variability_value, time_series,
  window_minutes=2, step_minutes=1)\<close>. The window and the step are natural numbers of minutes;
  \<open>range\<close> raises \<open>ValueError\<close> on a step of zero.
\<close>

definition calculate_hypoxia_risk ::
    "real list \<Rightarrow> real list \<Rightarrow> npfloat option \<Rightarrow> real list \<Rightarrow> nat \<Rightarrow> nat \<Rightarrow> py_error + hypoxia_point list" where
  "calculate_hypoxia_risk fhr_series uc_series variability_value time_series window_minutes step_minutes =
     (let window_size = window_minutes * 60;
          step_size = step_minutes * 60
      in if step_size = 0 then Inl ValueError
         else hypoxia_loop fhr_series uc_series variability_value time_series window_size []
                (py_range 0 (int (length fhr_series) - int window_size + 1) step_size))"

section \<open>Heuristic predictor (ctg\_analysis/ai\_module.py)\<close>

text \<open>
  The feature dictionary that \<open>extract_features\<close> builds. Its numpy reductions are guarded by
  \<open>if fhr_series else 0\<close>, so the features are numbers; the risk score is a sum of integers.
\<close>

record features =
  feat_fhr_mean :: real
  feat_fhr_std :: real
  feat_fhr_min :: real
  feat_fhr_max :: real
  feat_fhr_trend :: real
  feat_uc_mean :: real
  feat_uc_max :: real
  feat_uc_contractions :: nat
  feat_risk_score :: int

text \<open>The three prediction texts of the source, which are not ASCII, by what they say.\<close>

datatype prediction_text = Stable_condition | Deviations_possible | High_complication_risk

record prediction =
  pred_status :: string
  pred_prediction :: prediction_text
  pred_risk_level :: real
  pred_confidence :: real
  pred_timeframe :: string

definition predict_timeframe :: "features \<Rightarrow> string \<Rightarrow> prediction" where
  "predict_timeframe features timeframe =
     (let risk_level0 = (0 :: real);
          risk_level1 = (if feat_fhr_mean features < 110 \<or> 160 < feat_fhr_mean features
                         then risk_level0 + 0.3 else risk_level0);
          risk_level2 = (if feat_fhr_std features < 5 then risk_level1 + 0.3
                         else if 25 < feat_fhr_std features then risk_level1 + 0.2
                         else risk_level1);
          risk_level3 = (if feat_fhr_trend features < - 0.5 then risk_level2 + 0.2
                         else if 0.5 < feat_fhr_trend features then risk_level2 + 0.1
                         else risk_level2);
          risk_score_norm = min (real_of_int (feat_risk_score features) / 10) 0.3;
          risk_level4 = risk_level3 + risk_score_norm;
          risk_level5 = (if timeframe = ''15min'' then risk_level4
                         else if timeframe = ''30min'' then risk_level4 * 1.2
                         else risk_level4 * 1.5);
          risk_level = min (max risk_level5 0) 1;
          (status, prediction, confidence) =
            (if risk_level < 0.3 then (''normal'', Stable_condition, 0.85)
             else if risk_level < 0.6 then (''warning'', Deviations_possible, 0.70)
             else (''danger'', High_complication_risk, 0.60))
      in \<lparr>pred_status = status,
          pred_prediction = prediction,
          pred_risk_level = py_round risk_level 2,
          pred_confidence = confidence,
          pred_timeframe = timeframe\<rparr>)"

section \<open>Forecast synthesis (services/analysis\_service.py)\<close>

text \<open>
  \<open>_calculate_risk_trend\<close>: the slope of the risk values over their indices, times ten,
  clamped to \<open>[-1, 1]\<close>.
\<close>

definition calculate_risk_trend :: "real list \<Rightarrow> real" where
  "calculate_risk_trend risk_values =
     (if length risk_values < 2 then 0
      else let n = length risk_values;
               x = map int [0 ..< n];
               y = risk_values;
               sum_x = sum_list x;
               sum_y = sum_list y;
               sum_xy = sum_list (map (\<lambda>i. real_of_int (x ! i) * y ! i) [0 ..< n]);
               sum_x2 = sum_list (map (\<lambda>i. (x ! i) ^ 2) [0 ..< n])
           in if int n * sum_x2 - sum_x ^ 2 = 0 then 0
              else let slope = (real n * sum_xy - real_of_int sum_x * sum_y)
                                 / real_of_int (int n * sum_x2 - sum_x ^ 2)
                   in max (- 1) (min 1 (slope * 10)))"

text \<open>
  \<open>_predict_hypoxia_risk_for_timeframe(current_risk, hypoxia_risk_history, timeframe)\<close>;
  \<open>hypoxia_risk_history[-10:]\<close> is the last ten points, or all of them when there are fewer.
\<close>

definition predict_hypoxia_risk_for_timeframe :: "real \<Rightarrow> hypoxia_point list \<Rightarrow> string \<Rightarrow> real" where
  "predict_hypoxia_risk_for_timeframe current_risk hypoxia_risk_history timeframe =
     (if hypoxia_risk_history = [] \<or> length hypoxia_risk_history < 2 then current_risk
      else let recent_risks =
                 map pt_risk (drop (length hypoxia_risk_history - 10) hypoxia_risk_history);
               trend = calculate_risk_trend recent_risks;
               time_multiplier = (if timeframe = ''15min'' then 1.1
                                  else if timeframe = ''30min'' then 1.3
                                  else 1.6);
               predicted_risk = current_risk * (1 + trend * time_multiplier)
           in max 0 (min 1 predicted_risk))"

text \<open>
  The dictionaries the synthesizer reads. Of a classifier's result it reads the key
  \<open>"code"\<close> with \<open>get('code', 0)\<close>: the result is the map of its integer entries, and \<open>None\<close>
  stands for Python's \<open>None\<close> and for an empty dictionary, which are both false in a test.
  An entry of the predictor's result is a dictionary, seen as the map of its string entries,
  or some other value, on which \<open>get\<close> raises \<open>AttributeError\<close>.
\<close>

type_synonym result_dict = "string \<Rightarrow> int option"

datatype ai_entry = Ai_dict "string \<Rightarrow> string option" | Ai_other

type_synonym ai_dict = "string \<Rightarrow> ai_entry option"

text \<open>
  The first half of \<open>_determine_forecast_status\<close>: the base status from the modules' results.
\<close>

definition forecast_base_status ::
    "result_dict option \<Rightarrow> result_dict option \<Rightarrow> ai_dict option \<Rightarrow> string \<Rightarrow> py_error + string" where
  "forecast_base_status figo_result nichd_result ai_result timeframe =
     (if ai_result \<noteq> None \<and> the ai_result timeframe \<noteq> None then
        (case the (the ai_result timeframe) of
           Ai_dict d \<Rightarrow> Inr (get_or d ''status'' ''normal'')
         | Ai_other \<Rightarrow> Inl AttributeError)
      else if figo_result \<noteq> None \<and> 2 \<le> get_or (the figo_result) ''code'' 0 then Inr ''danger''
      else if nichd_result \<noteq> None \<and> 2 \<le> get_or (the nichd_result) ''code'' 0 then Inr ''danger''
      else if figo_result \<noteq> None \<and> get_or (the figo_result) ''code'' 0 = 1 then Inr ''warning''
      else if nichd_result \<noteq> None \<and> get_or (the nichd_result) ''code'' 0 = 1 then Inr ''warning''
      else Inr ''normal'')"

text \<open>\<open>_determine_forecast_status\<close>: the base status, then the correction by the hypoxia risk.\<close>

definition determine_forecast_status ::
    "result_dict option \<Rightarrow> result_dict option \<Rightarrow> ai_dict option \<Rightarrow> real \<Rightarrow> string \<Rightarrow> py_error + string" where
  "determine_forecast_status figo_result nichd_result ai_result hypoxia_risk timeframe =
     (case forecast_base_status figo_result nichd_result ai_result timeframe of
        Inl e \<Rightarrow> Inl e
      | Inr base_status \<Rightarrow>
          if 0.7 < hypoxia_risk then Inr ''danger''
          else if 0.4 < hypoxia_risk then
            (if base_status = ''normal'' then Inr ''warning'' else Inr base_status)
          else Inr base_status)"

text \<open>
  \<open>_generate_forecast_with_hypoxia_risk\<close>, without the narrative text: the current risk is the
  risk of the last point of the history, the predicted risk comes from it, and the status from
  the predicted risk. Building the narrative reads \<open>ai_result[timeframe].get\<close> first, which
  raises the same \<open>AttributeError\<close> as the status does.
\<close>

definition current_hypoxia_risk :: "hypoxia_point list \<Rightarrow> real" where
  "current_hypoxia_risk hypoxia_risk =
     (if hypoxia_risk \<noteq> [] \<and> 0 < length hypoxia_risk then pt_risk (last hypoxia_risk) else 0)"

record forecast =
  fc_status :: string
  fc_hypoxia_risk :: real

definition generate_forecast_with_hypoxia_risk ::
    "result_dict option \<Rightarrow> result_dict option \<Rightarrow> ai_dict option \<Rightarrow> hypoxia_point list \<Rightarrow> string
       \<Rightarrow> py_error + forecast" where
  "generate_forecast_with_hypoxia_risk figo_result nichd_result ai_result hypoxia_risk timeframe =
     (let predicted_risk =
            predict_hypoxia_risk_for_timeframe (current_hypoxia_risk hypoxia_risk) hypoxia_risk timeframe
      in case determine_forecast_status figo_result nichd_result ai_result predicted_risk timeframe of
           Inl e \<Rightarrow> Inl e
         | Inr status \<Rightarrow> Inr \<lparr>fc_status = status, fc_hypoxia_risk = predicted_risk\<rparr>)"

section \<open>Notions of the specification\<close>

text \<open>
  The maximal contiguous runs of the samples that pass a test: skip the samples that fail it,
  take the longest stretch of samples that pass, and go on behind that stretch. An event is a
  run of at least 15 samples.
\<close>

function maximal_runs :: "('a \<Rightarrow> bool) \<Rightarrow> 'a list \<Rightarrow> 'a list list" where
  "maximal_runs p xs =
     (case dropWhile (\<lambda>x. \<not> p x) xs of
        [] \<Rightarrow> []
      | y # ys \<Rightarrow> takeWhile p (y # ys) # maximal_runs p (dropWhile p (y # ys)))"
  by pat_completeness auto
termination
proof (relation "measure (\<lambda>(p, xs). length xs)")
  show "wf (measure (\<lambda>(p :: 'a \<Rightarrow> bool, xs). length xs))"
    by simp
next
  fix p :: "'a \<Rightarrow> bool" and xs y ys
  assume eq: "dropWhile (\<lambda>x. \<not> p x) xs = y # ys"
  have "\<not> \<not> p (hd (dropWhile (\<lambda>x. \<not> p x) xs))"
    by (rule hd_dropWhile) (simp add: eq)
  then have py: "p y"
    by (simp add: eq)
  have "length (dropWhile p (y # ys)) \<le> length ys"
    using py by (simp add: length_dropWhile_le)
  also have "length ys < length (dropWhile (\<lambda>x. \<not> p x) xs)"
    by (simp add: eq)
  also have "\<dots> \<le> length xs"
    by (rule length_dropWhile_le)
  finally show "((p, dropWhile p (y # ys)), (p, xs)) \<in> measure (\<lambda>(p, xs). length xs)"
    by simp
qed

definition count_events :: "('a \<Rightarrow> bool) \<Rightarrow> 'a list \<Rightarrow> nat" where
  "count_events p xs = length (filter (\<lambda>r. 15 \<le> length r) (maximal_runs p xs))"

text \<open>The threshold that depends on the gestational age, as \<open>detect_accelerations\<close> has it.\<close>

definition ga_threshold :: "int \<Rightarrow> real" where
  "ga_threshold ga_weeks = (if ga_weeks < 32 then 10 else 15)"

text \<open>
  The slope of the ordinary-least-squares line through the points \<open>(i, ys ! i)\<close>: the
  covariance of the indices and the values over the variance of the indices.
\<close>

definition ols_slope :: "real list \<Rightarrow> real" where
  "ols_slope ys =
     (let n = length ys;
          x_mean = (\<Sum>i\<leftarrow>[0 ..< n]. real i) / real n;
          y_mean = sum_list ys / real n
      in (\<Sum>i\<leftarrow>[0 ..< n]. (real i - x_mean) * (ys ! i - y_mean))
           / (\<Sum>i\<leftarrow>[0 ..< n]. (real i - x_mean) ^ 2))"

definition clamp :: "real \<Rightarrow> real \<Rightarrow> real \<Rightarrow> real" where
  "clamp x lo hi = max lo (min hi x)"

text \<open>The trend of a risk series: the slope of its last ten points at most, times ten, clamped.\<close>

definition risk_trend :: "real list \<Rightarrow> real" where
  "risk_trend risks = clamp (ols_slope (drop (length risks - 10) risks) * 10) (- 1) 1"

definition horizon_multiplier :: "string \<Rightarrow> real option" where
  "horizon_multiplier = map_of [(''15min'', 1.1), (''30min'', 1.3), (''60min'', 1.6)]"

text \<open>The order of the three statuses.\<close>

definition severity :: "string \<Rightarrow> nat" where
  "severity status = (if status = ''danger'' then 2 else if status = ''warning'' then 1 else 0)"

section \<open>Example series\<close>

text \<open>
  A flat series at 140 with 15 samples at 128, and one with 15 samples at 120; a series that
  alternates between 140 and 150 with two stretches of 16 samples that alternate between 160
  and 170.
\<close>

definition fhr_shallow_dip :: "real list" where
  "fhr_shallow_dip = replicate 20 140 @ replicate 15 128 @ replicate 20 140"

definition fhr_two_accelerations :: "real list" where
  "fhr_two_accelerations =
     concat (replicate 15 [140, 150]) @ concat (replicate 8 [160, 170])
     @ concat (replicate 15 [140, 150]) @ concat (replicate 8 [160, 170])
     @ concat (replicate 15 [140, 150])"

definition fhr_deep_dip :: "real list" where
  "fhr_deep_dip = replicate 20 140 @ replicate 15 120 @ replicate 20 140"

section \<open>The loop of the detectors\<close>

text \<open>
  The loop of the two detectors with the test of a sample as a parameter: the count of events,
  whether a run is open, and the length of the open run.
\<close>

fun run_loop :: "('a \<Rightarrow> bool) \<Rightarrow> nat \<Rightarrow> bool \<Rightarrow> nat \<Rightarrow> 'a list \<Rightarrow> nat" where
  "run_loop p events in_run run_length [] =
     (if in_run \<and> 15 \<le> run_length then events + 1 else events)"
| "run_loop p events in_run run_length (x # rest) =
     (if p x then
        (if \<not> in_run then run_loop p events True 1 rest
         else run_loop p events True (run_length + 1) rest)
      else
        run_loop p (if in_run \<and> 15 \<le> run_length then events + 1 else events) False 0 rest)"

declare maximal_runs.simps [simp del]

section \<open>The statistic primitives on degenerate input\<close>

lemma np_median_not_NaN: "xs \<noteq> [] \<Longrightarrow> np_median xs \<noteq> NaN"
  by (simp add: np_median_def Let_def)

lemma np_median_Num: "xs \<noteq> [] \<Longrightarrow> \<exists>r. np_median xs = Num r"
  using np_median_not_NaN[of xs] by (cases "np_median xs") simp_all

lemma finite_values_all_Num:
  "(\<And>v. v \<in> set vs \<Longrightarrow> \<exists>r. v = Num r)
     \<Longrightarrow> \<exists>rs. finite_values vs = Some rs \<and> length rs = length vs"
proof (induction vs)
  case Nil
  then show ?case by simp
next
  case (Cons v vs)
  then obtain r where v: "v = Num r" by auto
  from Cons obtain rs where "finite_values vs = Some rs" "length rs = length vs" by auto
  with v show ?case by simp
qed

text \<open>
  With a window of at least one sample, \<open>calc_baseline\<close> never takes the median of an empty
  array: its result is a number for every series.
\<close>

lemma calc_baseline_total:
  assumes "0 < window_size"
  shows "\<exists>r. calc_baseline fhr_series window_size = Num r"
proof -
  define filtered where "filtered = filter (\<lambda>fhr. 50 \<le> fhr \<and> fhr \<le> 200) fhr_series"
  show ?thesis
  proof (cases "fhr_series = [] \<or> filtered = []")
    case True
    then show ?thesis by (auto simp: calc_baseline_def filtered_def Let_def)
  next
    case False
    then have ne: "fhr_series \<noteq> []" "filtered \<noteq> []" by auto
    show ?thesis
    proof (cases "length filtered < window_size")
      case True
      with ne np_median_Num[of filtered] show ?thesis
        by (simp add: calc_baseline_def filtered_def Let_def)
    next
      case False
      define ws where "ws = map (\<lambda>i. np_median (take window_size (drop i filtered)))
                          [0 ..< length filtered - window_size + 1]"
      have "\<And>v. v \<in> set ws \<Longrightarrow> \<exists>r. v = Num r"
      proof -
        fix v assume "v \<in> set ws"
        then have "v \<in> (\<lambda>i. np_median (take window_size (drop i filtered)))
                     ` {0 ..< length filtered - window_size + 1}"
          unfolding ws_def set_map set_upt .
        then obtain i where i: "i < length filtered - window_size + 1"
          and v: "v = np_median (take window_size (drop i filtered))"
          by (auto simp del: upt_Suc)
        from i False assms have "take window_size (drop i filtered) \<noteq> []"
          by auto
        then show "\<exists>r. v = Num r" unfolding v by (rule np_median_Num)
      qed
      then obtain rs where rs: "finite_values ws = Some rs" "length rs = length ws"
        using finite_values_all_Num by blast
      have "ws \<noteq> []" by (simp add: ws_def)
      with rs have "rs \<noteq> []" by auto
      then obtain r where "np_median rs = Num r" using np_median_Num by blast
      with rs have "np_median_f ws = Num r" by (simp add: np_median_f_def)
      moreover have "calc_baseline fhr_series window_size = np_median_f ws"
        unfolding calc_baseline_def Let_def filtered_def[symmetric] ws_def[symmetric]
        using ne False by simp
      ultimately show ?thesis by simp
    qed
  qed
qed

text \<open>
  Claim C8. On the empty series \<open>calc_baseline\<close> returns 0.0 and \<open>calculate_variability\<close>
  returns 0.0; both are values of total functions, so neither raises. On twenty samples of
  150 the baseline is 150.0.
\<close>

theorem empty_input_returns_zero:
  "calc_baseline [] 10 = Num 0
   \<and> calculate_variability [] = Num 0
   \<and> calc_baseline (replicate 20 150) 10 = Num 150"
proof (intro conjI)
  show "calc_baseline [] 10 = Num 0"
    by (simp add: calc_baseline_def)
  show "calculate_variability [] = Num 0"
    by (simp add: calculate_variability_def)
  show "calc_baseline (replicate 20 150) 10 = Num 150"
    by code_simp
qed

text \<open>
  Claim C9. On a series that is not empty and has every sample outside \<open>[50, 200]\<close>,
  \<open>calc_baseline\<close> returns 0.0 by its guard on the filtered list; and on every series its
  result is a number, never the \<open>nan\<close> that the median of an empty list would be.
\<close>

theorem calc_baseline_all_filtered:
  "(fhr_series \<noteq> [] \<and> (\<forall>fhr \<in> set fhr_series. fhr < 50 \<or> 200 < fhr)
      \<longrightarrow> calc_baseline fhr_series 10 = Num 0)
   \<and> (\<exists>r. calc_baseline fhr_series 10 = Num r)"
proof
  show "fhr_series \<noteq> [] \<and> (\<forall>fhr \<in> set fhr_series. fhr < 50 \<or> 200 < fhr)
          \<longrightarrow> calc_baseline fhr_series 10 = Num 0"
  proof
    assume "fhr_series \<noteq> [] \<and> (\<forall>fhr \<in> set fhr_series. fhr < 50 \<or> 200 < fhr)"
    then have "filter (\<lambda>fhr. 50 \<le> fhr \<and> fhr \<le> 200) fhr_series = []"
      by (auto simp: filter_empty_conv)
    then show "calc_baseline fhr_series 10 = Num 0"
      by (simp add: calc_baseline_def)
  qed
  show "\<exists>r. calc_baseline fhr_series 10 = Num r"
    by (rule calc_baseline_total) simp
qed

theorem calc_baseline_all_filtered_witness:
  "calc_baseline [0, 250, 30] 10 = Num 0"
  using calc_baseline_all_filtered [of "[0, 250, 30]"] by simp

section \<open>Risk adjustment\<close>

lemma figo_codes [simp]:
  "get_or figo_code_map ''Normal'' 0 = 0"
  "get_or figo_code_map ''Suspicious'' 0 = 1"
  "get_or figo_code_map ''Pathological'' 0 = 2"
  "figo_code_map ''Normal'' = Some 0"
  "figo_code_map ''Suspicious'' = Some 1"
  "figo_code_map ''Pathological'' = Some 2"
  by (simp_all add: figo_code_map_def get_or_def)

lemma nichd_codes [simp]:
  "get_or nichd_code_map ''Category I'' 0 = 0"
  "get_or nichd_code_map ''Category II'' 0 = 1"
  "get_or nichd_code_map ''Category III'' 0 = 2"
  "nichd_code_map ''Category I'' = Some 0"
  "nichd_code_map ''Category II'' = Some 1"
  "nichd_code_map ''Category III'' = Some 2"
  by (simp_all add: nichd_code_map_def get_or_def)

lemma adjust_figo_cases:
  "adjust_figo_classification ''Normal'' s =
     (if 4 \<le> s then \<lparr>adj_original_label = ''Normal'', adj_adjusted_label = ''Suspicious'', adj_code = 1,
          adj_adjustment_applied = True, adj_risk_score = s, adj_adjustment_reason = Some s\<rparr>
      else \<lparr>adj_original_label = ''Normal'', adj_adjusted_label = ''Normal'', adj_code = 0,
          adj_adjustment_applied = False, adj_risk_score = s, adj_adjustment_reason = None\<rparr>)"
  "adjust_figo_classification ''Suspicious'' s =
     (if 4 \<le> s then \<lparr>adj_original_label = ''Suspicious'', adj_adjusted_label = ''Pathological'', adj_code = 2,
          adj_adjustment_applied = True, adj_risk_score = s, adj_adjustment_reason = Some s\<rparr>
      else \<lparr>adj_original_label = ''Suspicious'', adj_adjusted_label = ''Suspicious'', adj_code = 1,
          adj_adjustment_applied = False, adj_risk_score = s, adj_adjustment_reason = None\<rparr>)"
  "adjust_figo_classification ''Pathological'' s =
     \<lparr>adj_original_label = ''Pathological'', adj_adjusted_label = ''Pathological'', adj_code = 2,
          adj_adjustment_applied = False, adj_risk_score = s, adj_adjustment_reason = None\<rparr>"
  by (simp_all add: adjust_figo_classification_def)

lemma adjust_nichd_cases:
  "adjust_nichd_classification ''Category I'' s =
     (if 4 \<le> s then \<lparr>adj_original_label = ''Category I'', adj_adjusted_label = ''Category II'', adj_code = 1,
          adj_adjustment_applied = True, adj_risk_score = s, adj_adjustment_reason = Some s\<rparr>
      else \<lparr>adj_original_label = ''Category I'', adj_adjusted_label = ''Category I'', adj_code = 0,
          adj_adjustment_applied = False, adj_risk_score = s, adj_adjustment_reason = None\<rparr>)"
  "adjust_nichd_classification ''Category II'' s =
     (if 4 \<le> s then \<lparr>adj_original_label = ''Category II'', adj_adjusted_label = ''Category III'', adj_code = 2,
          adj_adjustment_applied = True, adj_risk_score = s, adj_adjustment_reason = Some s\<rparr>
      else \<lparr>adj_original_label = ''Category II'', adj_adjusted_label = ''Category II'', adj_code = 1,
          adj_adjustment_applied = False, adj_risk_score = s, adj_adjustment_reason = None\<rparr>)"
  "adjust_nichd_classification ''Category III'' s =
     \<lparr>adj_original_label = ''Category III'', adj_adjusted_label = ''Category III'', adj_code = 2,
          adj_adjustment_applied = False, adj_risk_score = s, adj_adjustment_reason = None\<rparr>"
  by (simp_all add: adjust_nichd_classification_def)


text \<open>
  Claim C2. For a base label of the standard and a risk score of at least 4 the adjusted code
  is one step above the base code, and stays 2 at the top; below 4 the label and the code are
  unchanged; in every case the adjusted code is at least the base code and at most one above
  it, and it is the code of the adjusted label.
\<close>

theorem risk_adjustment_one_step:
  "(base_label \<in> {''Normal'', ''Suspicious'', ''Pathological''} \<longrightarrow>
      (let base_code = get_or figo_code_map base_label 0;
           adj = adjust_figo_classification base_label risk_score
       in (4 \<le> risk_score \<longrightarrow> adj_code adj = min 2 (base_code + 1))
          \<and> (risk_score < 4 \<longrightarrow> adj_adjusted_label adj = base_label \<and> adj_code adj = base_code)
          \<and> base_code \<le> adj_code adj \<and> adj_code adj \<le> base_code + 1
          \<and> figo_code_map (adj_adjusted_label adj) = Some (adj_code adj)))
   \<and> (category_label \<in> {''Category I'', ''Category II'', ''Category III''} \<longrightarrow>
      (let base_code = get_or nichd_code_map category_label 0;
           adj = adjust_nichd_classification category_label risk_score
       in (4 \<le> risk_score \<longrightarrow> adj_code adj = min 2 (base_code + 1))
          \<and> (risk_score < 4 \<longrightarrow> adj_adjusted_label adj = category_label \<and> adj_code adj = base_code)
          \<and> base_code \<le> adj_code adj \<and> adj_code adj \<le> base_code + 1
          \<and> nichd_code_map (adj_adjusted_label adj) = Some (adj_code adj)))"
proof (intro conjI impI)
  assume "base_label \<in> {''Normal'', ''Suspicious'', ''Pathological''}"
  then consider "base_label = ''Normal''" | "base_label = ''Suspicious''" | "base_label = ''Pathological''"
    by blast
  then show "let base_code = get_or figo_code_map base_label 0;
           adj = adjust_figo_classification base_label risk_score
       in (4 \<le> risk_score \<longrightarrow> adj_code adj = min 2 (base_code + 1))
          \<and> (risk_score < 4 \<longrightarrow> adj_adjusted_label adj = base_label \<and> adj_code adj = base_code)
          \<and> base_code \<le> adj_code adj \<and> adj_code adj \<le> base_code + 1
          \<and> figo_code_map (adj_adjusted_label adj) = Some (adj_code adj)"
    by cases (simp_all only: Let_def adjust_figo_cases, simp_all)
next
  assume "category_label \<in> {''Category I'', ''Category II'', ''Category III''}"
  then consider "category_label = ''Category I''" | "category_label = ''Category II''"
    | "category_label = ''Category III''"
    by blast
  then show "let base_code = get_or nichd_code_map category_label 0;
           adj = adjust_nichd_classification category_label risk_score
       in (4 \<le> risk_score \<longrightarrow> adj_code adj = min 2 (base_code + 1))
          \<and> (risk_score < 4 \<longrightarrow> adj_adjusted_label adj = category_label \<and> adj_code adj = base_code)
          \<and> base_code \<le> adj_code adj \<and> adj_code adj \<le> base_code + 1
          \<and> nichd_code_map (adj_adjusted_label adj) = Some (adj_code adj)"
    by cases (simp_all only: Let_def adjust_nichd_cases, simp_all)
qed

theorem risk_adjustment_one_step_witness:
  "adj_code (adjust_figo_classification ''Normal'' 4) = 1
   \<and> adj_code (adjust_figo_classification ''Suspicious'' 5) = 2
   \<and> adj_code (adjust_figo_classification ''Pathological'' 9) = 2
   \<and> adj_code (adjust_nichd_classification ''Category I'' 4) = 1
   \<and> adj_code (adjust_nichd_classification ''Category II'' 3) = 1"
  using risk_adjustment_one_step [of "''Normal''" 4 "''Category I''"] risk_adjustment_one_step [of "''Suspicious''" 5 "''Category II''"]
    risk_adjustment_one_step [of "''Pathological''" 9 "''Category III''"] risk_adjustment_one_step [of "''Pathological''" 3 "''Category II''"]
  by (simp add: Let_def)

section \<open>Forecast status\<close>

lemma determine_forecast_status_Inr:
  "forecast_base_status figo_result nichd_result ai_result timeframe = Inr base_status \<Longrightarrow>
   determine_forecast_status figo_result nichd_result ai_result hypoxia_risk timeframe =
     Inr (if 0.7 < hypoxia_risk then ''danger''
          else if 0.4 < hypoxia_risk then (if base_status = ''normal'' then ''warning'' else base_status)
          else base_status)"
  by (simp add: determine_forecast_status_def)

lemma forecast_base_status_classifiers:
  assumes "ai_result = None \<or> (\<exists>ai. ai_result = Some ai \<and> ai timeframe = None)"
  shows "forecast_base_status figo_result nichd_result ai_result timeframe =
        Inr (if (\<exists>f. figo_result = Some f \<and> 2 \<le> get_or f ''code'' 0)
                \<or> (\<exists>n. nichd_result = Some n \<and> 2 \<le> get_or n ''code'' 0) then ''danger''
             else if (\<exists>f. figo_result = Some f \<and> get_or f ''code'' 0 = 1)
                \<or> (\<exists>n. nichd_result = Some n \<and> get_or n ''code'' 0 = 1) then ''warning''
             else ''normal'')"
proof -
  have ai: "\<not> (ai_result \<noteq> None \<and> the ai_result timeframe \<noteq> None)"
    using assms by auto
  show ?thesis
    unfolding forecast_base_status_def if_not_P[OF ai]
    by (cases figo_result; cases nichd_result) simp_all
qed

lemma forecast_base_status_predictor:
  assumes "ai_result = Some ai" "ai timeframe = Some (Ai_dict d)"
  shows "forecast_base_status figo_result nichd_result ai_result timeframe =
           Inr (get_or d ''status'' ''normal'')"
  using assms by (simp add: forecast_base_status_def)

text \<open>
  Claim C1. When the base status is computed, the final status is computed too: it is
  \<open>danger\<close> for a risk above 0.7; for a risk above 0.4 a \<open>normal\<close> base becomes \<open>warning\<close> and
  any other base is kept; otherwise it is the base. A \<open>danger\<close> base stays \<open>danger\<close>, a \<open>warning\<close>
  base stays \<open>warning\<close> or becomes \<open>danger\<close>, so the final status is at least as severe as the
  base. The base status is the predictor's status for the horizon when the predictor has an
  entry for it; otherwise it is \<open>danger\<close> when a classifier's code is 2 or more, \<open>warning\<close> when
  one is 1, and \<open>normal\<close> else.
\<close>

theorem forecast_status_never_downgrades:
  "(forecast_base_status figo_result nichd_result ai_result timeframe = Inr base_status \<longrightarrow>
     (\<exists>final. determine_forecast_status figo_result nichd_result ai_result hypoxia_risk timeframe = Inr final
      \<and> (0.7 < hypoxia_risk \<longrightarrow> final = ''danger'')
      \<and> (0.4 < hypoxia_risk \<and> hypoxia_risk \<le> 0.7 \<longrightarrow>
            final = (if base_status = ''normal'' then ''warning'' else base_status))
      \<and> (hypoxia_risk \<le> 0.4 \<longrightarrow> final = base_status)
      \<and> (base_status = ''danger'' \<longrightarrow> final = ''danger'')
      \<and> (base_status = ''warning'' \<longrightarrow> final = ''warning'' \<or> final = ''danger'')
      \<and> (base_status \<in> {''normal'', ''warning'', ''danger''} \<longrightarrow>
            final \<in> {''normal'', ''warning'', ''danger''} \<and> severity base_status \<le> severity final)))
   \<and> (ai_result = Some ai \<and> ai timeframe = Some (Ai_dict d) \<longrightarrow>
        forecast_base_status figo_result nichd_result ai_result timeframe
          = Inr (get_or d ''status'' ''normal''))
   \<and> (ai_result = None \<or> (\<exists>ai. ai_result = Some ai \<and> ai timeframe = None) \<longrightarrow>
        forecast_base_status figo_result nichd_result ai_result timeframe =
          Inr (if (\<exists>f. figo_result = Some f \<and> 2 \<le> get_or f ''code'' 0)
                  \<or> (\<exists>n. nichd_result = Some n \<and> 2 \<le> get_or n ''code'' 0) then ''danger''
               else if (\<exists>f. figo_result = Some f \<and> get_or f ''code'' 0 = 1)
                  \<or> (\<exists>n. nichd_result = Some n \<and> get_or n ''code'' 0 = 1) then ''warning''
               else ''normal''))"
proof (intro conjI impI)
  assume b: "forecast_base_status figo_result nichd_result ai_result timeframe = Inr base_status"
  define final where "final = (if 0.7 < hypoxia_risk then ''danger''
          else if 0.4 < hypoxia_risk then (if base_status = ''normal'' then ''warning'' else base_status)
          else base_status)"
  have sev: "severity ''normal'' = 0" "severity ''warning'' = 1" "severity ''danger'' = 2"
    by (simp_all add: severity_def)
  have 0: "determine_forecast_status figo_result nichd_result ai_result hypoxia_risk timeframe = Inr final"
    unfolding final_def by (rule determine_forecast_status_Inr[OF b])
  have 1: "0.7 < hypoxia_risk \<longrightarrow> final = ''danger''"
    by (simp add: final_def)
  have 2: "0.4 < hypoxia_risk \<and> hypoxia_risk \<le> 0.7 \<longrightarrow>
            final = (if base_status = ''normal'' then ''warning'' else base_status)"
    by (simp add: final_def)
  have 3: "hypoxia_risk \<le> 0.4 \<longrightarrow> final = base_status"
    by (simp add: final_def)
  have 4: "base_status = ''danger'' \<longrightarrow> final = ''danger''"
    by (simp add: final_def)
  have 5: "base_status = ''warning'' \<longrightarrow> final = ''warning'' \<or> final = ''danger''"
    by (simp add: final_def)
  have 6: "base_status \<in> {''normal'', ''warning'', ''danger''} \<longrightarrow>
            final \<in> {''normal'', ''warning'', ''danger''} \<and> severity base_status \<le> severity final"
  proof
    assume "base_status \<in> {''normal'', ''warning'', ''danger''}"
    then consider "base_status = ''normal''" | "base_status = ''warning''" | "base_status = ''danger''"
      by blast
    then show "final \<in> {''normal'', ''warning'', ''danger''} \<and> severity base_status \<le> severity final"
      by cases (simp_all add: final_def sev)
  qed
  from 0 1 2 3 4 5 6
  show "\<exists>final. determine_forecast_status figo_result nichd_result ai_result hypoxia_risk timeframe = Inr final
      \<and> (0.7 < hypoxia_risk \<longrightarrow> final = ''danger'')
      \<and> (0.4 < hypoxia_risk \<and> hypoxia_risk \<le> 0.7 \<longrightarrow>
            final = (if base_status = ''normal'' then ''warning'' else base_status))
      \<and> (hypoxia_risk \<le> 0.4 \<longrightarrow> final = base_status)
      \<and> (base_status = ''danger'' \<longrightarrow> final = ''danger'')
      \<and> (base_status = ''warning'' \<longrightarrow> final = ''warning'' \<or> final = ''danger'')
      \<and> (base_status \<in> {''normal'', ''warning'', ''danger''} \<longrightarrow>
            final \<in> {''normal'', ''warning'', ''danger''} \<and> severity base_status \<le> severity final)"
    by (intro exI[of _ final] conjI)
next
  assume "ai_result = Some ai \<and> ai timeframe = Some (Ai_dict d)"
  then show "forecast_base_status figo_result nichd_result ai_result timeframe
          = Inr (get_or d ''status'' ''normal'')"
    by (simp add: forecast_base_status_predictor)
next
  assume "ai_result = None \<or> (\<exists>ai. ai_result = Some ai \<and> ai timeframe = None)"
  then show "forecast_base_status figo_result nichd_result ai_result timeframe =
          Inr (if (\<exists>f. figo_result = Some f \<and> 2 \<le> get_or f ''code'' 0)
                  \<or> (\<exists>n. nichd_result = Some n \<and> 2 \<le> get_or n ''code'' 0) then ''danger''
               else if (\<exists>f. figo_result = Some f \<and> get_or f ''code'' 0 = 1)
                  \<or> (\<exists>n. nichd_result = Some n \<and> get_or n ''code'' 0 = 1) then ''warning''
               else ''normal'')"
    by (rule forecast_base_status_classifiers)
qed


theorem forecast_status_never_downgrades_witness:
  "determine_forecast_status (Some [''code'' \<mapsto> 2]) None None 0.1 ''15min'' = Inr ''danger''
   \<and> determine_forecast_status None (Some [''code'' \<mapsto> 1]) None 0.9 ''30min'' = Inr ''danger''
   \<and> determine_forecast_status None None
        (Some [''60min'' \<mapsto> Ai_dict [''status'' \<mapsto> ''warning'']]) 0.5 ''60min'' = Inr ''warning''"
proof -
  have a: "forecast_base_status (Some [''code'' \<mapsto> 2]) None None ''15min'' = Inr ''danger''"
    by (simp add: forecast_base_status_def get_or_def)
  have b: "forecast_base_status None (Some [''code'' \<mapsto> 1]) None ''30min'' = Inr ''warning''"
    by (simp add: forecast_base_status_def get_or_def)
  have c: "forecast_base_status None None
        (Some [''60min'' \<mapsto> Ai_dict [''status'' \<mapsto> ''warning'']]) ''60min'' = Inr ''warning''"
    by (simp add: forecast_base_status_def get_or_def)
  show ?thesis
    using a b c
      forecast_status_never_downgrades [of "Some [''code'' \<mapsto> 2]" None None "''15min''" "''danger''" "0.1"]
      forecast_status_never_downgrades [of None "Some [''code'' \<mapsto> 1]" None "''30min''" "''warning''" "0.9"]
      forecast_status_never_downgrades [of None None "Some [''60min'' \<mapsto> Ai_dict [''status'' \<mapsto> ''warning'']]" "''60min''" "''warning''" "0.5"]
    by simp
qed

section \<open>The windows of the hypoxia risk\<close>

declare py_range.simps [simp del]

lemma py_range_bound: "j \<in> set (py_range i stop step) \<Longrightarrow> int j < stop"
proof (induction i stop step rule: py_range.induct)
  case (1 i stop step)
  show ?case
  proof (cases "0 < step \<and> int i < stop")
    case True
    with "1.prems" have "j = i \<or> j \<in> set (py_range (i + step) stop step)"
      by (subst (asm) py_range.simps) simp
    with True "1.IH" show ?thesis by auto
  next
    case False
    with "1.prems" show ?thesis by (subst (asm) py_range.simps) simp
  qed
qed

lemma length_py_range:
  "0 < step \<Longrightarrow> length (py_range i stop step) =
     (if int i < stop then (nat (stop - int i) - 1) div step + 1 else 0)"
proof (induction i stop step rule: py_range.induct)
  case (1 i stop step)
  show ?case
  proof (cases "int i < stop")
    case False
    then show ?thesis by (subst py_range.simps) simp
  next
    case True
    with "1.prems" have IH: "length (py_range (i + step) stop step) =
       (if int (i + step) < stop then (nat (stop - int (i + step)) - 1) div step + 1 else 0)"
      using "1.IH" by simp
    have unfold: "length (py_range i stop step) = Suc (length (py_range (i + step) stop step))"
      using True "1.prems" by (subst py_range.simps) simp
    define d where "d = nat (stop - int i) - 1"
    have d: "nat (stop - int i) = d + 1" using True by (simp add: d_def)
    show ?thesis
    proof (cases "int (i + step) < stop")
      case True2: True
      then have "step \<le> d" using d by linarith
      moreover have "nat (stop - int (i + step)) - 1 = d - step" using d True2 by linarith
      ultimately show ?thesis
        using True True2 unfold IH "1.prems" d_def[symmetric]
        by (simp add: le_div_geq)
    next
      case False2: False
      then have "d < step" using d True by linarith
      then show ?thesis using True False2 unfold IH d_def[symmetric] by simp
    qed
  qed
qed

lemma hypoxia_window_Inr:
  "i < length time_series \<Longrightarrow>
   \<exists>point. hypoxia_window fhr_series uc_series variability_value time_series window_size i = Inr point"
  by (simp add: hypoxia_window_def Let_def split: prod.splits)

lemma hypoxia_loop_length:
  "(\<And>i. i \<in> set idxs \<Longrightarrow> i < length time_series) \<Longrightarrow>
   \<exists>rs. hypoxia_loop fhr_series uc_series variability_value time_series window_size results idxs = Inr rs
        \<and> length rs = length results + length idxs"
proof (induction idxs arbitrary: results)
  case Nil
  then show ?case by simp
next
  case (Cons i idxs)
  then have "i < length time_series" by simp
  then obtain point where
    p: "hypoxia_window fhr_series uc_series variability_value time_series window_size i = Inr point"
    using hypoxia_window_Inr by blast
  have "\<exists>rs. hypoxia_loop fhr_series uc_series variability_value time_series window_size
                       (results @ [point]) idxs = Inr rs
        \<and> length rs = length (results @ [point]) + length idxs"
    by (rule Cons.IH) (simp add: Cons.prems)
  with p show ?case by simp
qed

text \<open>
  Claim C7. For FHR, UC and time series of one length \<open>n\<close>, \<open>calculate_hypoxia_risk\<close> with the
  window of 2 minutes and the step of 1 minute returns a list of \<open>(n - 120) div 60 + 1\<close> window
  results when \<open>n\<close> is at least 120, the empty list when \<open>n\<close> is below 120, and 4 results for
  300 samples; it raises nothing.
\<close>

theorem hypoxia_window_count:
  assumes "length fhr_series = n" and "length uc_series = n" and "length time_series = n"
  shows "(120 \<le> n \<longrightarrow>
            (\<exists>rs. calculate_hypoxia_risk fhr_series uc_series variability_value time_series 2 1 = Inr rs
                  \<and> length rs = (n - 120) div 60 + 1))
         \<and> (n < 120 \<longrightarrow>
              calculate_hypoxia_risk fhr_series uc_series variability_value time_series 2 1 = Inr [])
         \<and> (n = 300 \<longrightarrow>
            (\<exists>rs. calculate_hypoxia_risk fhr_series uc_series variability_value time_series 2 1 = Inr rs
                  \<and> length rs = 4))"
proof -
  let ?idxs = "py_range 0 (int n - 120 + 1) 60"
  have calc: "calculate_hypoxia_risk fhr_series uc_series variability_value time_series 2 1 =
      hypoxia_loop fhr_series uc_series variability_value time_series 120 [] ?idxs"
    using assms by (simp add: calculate_hypoxia_risk_def)
  have bound: "\<And>i. i \<in> set ?idxs \<Longrightarrow> i < length time_series"
    using py_range_bound assms by fastforce
  have len: "length ?idxs = (if 120 \<le> n then (n - 120) div 60 + 1 else 0)"
  proof -
    have "int 0 < int n - 120 + 1 \<longleftrightarrow> 120 \<le> n" by linarith
    moreover have "nat (int n - 120 + 1 - int 0) - 1 = n - 120" by linarith
    ultimately show ?thesis using length_py_range[of 60 0 "int n - 120 + 1"] by simp
  qed
  have "\<exists>rs. hypoxia_loop fhr_series uc_series variability_value time_series 120 [] ?idxs = Inr rs
        \<and> length rs = length ([] :: hypoxia_point list) + length ?idxs"
    by (rule hypoxia_loop_length) (rule bound)
  then obtain rs where rs: "hypoxia_loop fhr_series uc_series variability_value time_series 120 [] ?idxs = Inr rs"
    "length rs = length ?idxs" by auto
  show ?thesis using rs calc len by auto
qed

theorem hypoxia_window_count_witness:
  "(\<exists>rs. calculate_hypoxia_risk (replicate 300 140) (replicate 300 10) (Some (Num 8))
            (map real [0 ..< 300]) 2 1 = Inr rs \<and> length rs = 4)
   \<and> calculate_hypoxia_risk (replicate 100 140) (replicate 100 10) (Some (Num 8))
            (map real [0 ..< 100]) 2 1 = Inr []"
  using hypoxia_window_count [of "replicate 300 140" 300 "replicate 300 10" "map real [0 ..< 300]" "Some (Num 8)"]
    hypoxia_window_count [of "replicate 100 140" 100 "replicate 100 10" "map real [0 ..< 100]" "Some (Num 8)"]
  by simp

section \<open>The predictor over the horizons\<close>

lemma round_half_even_bounds:
  "\<lfloor>y\<rfloor> \<le> round_half_even y" "round_half_even y \<le> \<lfloor>y\<rfloor> + 1"
  by (simp_all add: round_half_even_def Let_def)

lemma round_half_even_mono:
  assumes "x \<le> y"
  shows "round_half_even x \<le> round_half_even y"
proof (cases "\<lfloor>x\<rfloor> = \<lfloor>y\<rfloor>")
  case True
  have "x - of_int \<lfloor>y\<rfloor> \<le> y - of_int \<lfloor>y\<rfloor>" using assms by simp
  then show ?thesis
    unfolding round_half_even_def Let_def True by auto
next
  case False
  with assms have "\<lfloor>x\<rfloor> < \<lfloor>y\<rfloor>"
    by (simp add: floor_mono order_neq_le_trans)
  with round_half_even_bounds(2)[of x] round_half_even_bounds(1)[of y] show ?thesis
    by linarith
qed

lemma py_round_mono: "x \<le> y \<Longrightarrow> py_round x n \<le> py_round y n"
proof -
  assume "x \<le> y"
  then have "x * 10 ^ n \<le> y * 10 ^ n" by (simp add: mult_right_mono)
  then have "round_half_even (x * 10 ^ n) \<le> round_half_even (y * 10 ^ n)"
    by (rule round_half_even_mono)
  then show ?thesis
    by (simp add: py_round_def divide_right_mono)
qed

lemma round_half_even_int: "round_half_even (of_int k) = k"
  by (simp add: round_half_even_def)

lemma py_round_range: "0 \<le> x \<Longrightarrow> x \<le> 1 \<Longrightarrow> 0 \<le> py_round x n \<and> py_round x n \<le> 1"
proof -
  assume a: "0 \<le> x" "x \<le> 1"
  have "py_round 0 n = 0" using round_half_even_int[of 0] by (simp add: py_round_def)
  moreover have "py_round 1 n = 1" using round_half_even_int[of "10 ^ n"] by (simp add: py_round_def)
  ultimately show ?thesis using py_round_mono[of 0 x n] py_round_mono[of x 1 n] a by simp
qed

text \<open>
  The risk level of a prediction is the rounded clamp of one accumulated risk, which does not
  depend on the horizon, times the factor of the horizon.
\<close>

lemma predict_timeframe_risk_level:
  "\<exists>r. \<forall>timeframe. pred_risk_level (predict_timeframe features timeframe) =
      py_round (min (max (if timeframe = ''15min'' then r
                          else if timeframe = ''30min'' then r * 1.2 else r * 1.5) 0) 1) 2"
  unfolding predict_timeframe_def Let_def
  by (rule exI, rule allI, simp only: case_prod_beta prediction.simps) 

lemma clamp_scaled_mono:
  fixes r :: real
  assumes "1 \<le> a" "a \<le> b"
  shows "min (max (r * a) 0) 1 \<le> min (max (r * b) 0) 1"
proof (cases "0 \<le> r")
  case True
  then have "r * a \<le> r * b" using assms by (simp add: mult_left_mono)
  then show ?thesis by auto
next
  case False
  then have "r * a \<le> 0" "r * b \<le> 0" using assms by (simp_all add: mult_le_0_iff)
  then show ?thesis by auto
qed

text \<open>
  Claim C10. For every feature vector the risk level that the predictor reports for 15min is
  at most the one for 30min, which is at most the one for 60min; every level lies in
  \<open>[0, 1]\<close>.
\<close>

theorem predictor_risk_monotone_in_horizon:
  "pred_risk_level (predict_timeframe features ''15min'') \<le> pred_risk_level (predict_timeframe features ''30min'')
   \<and> pred_risk_level (predict_timeframe features ''30min'') \<le> pred_risk_level (predict_timeframe features ''60min'')
   \<and> 0 \<le> pred_risk_level (predict_timeframe features ''15min'')
   \<and> pred_risk_level (predict_timeframe features ''60min'') \<le> 1"
proof -
  obtain r where r: "\<And>timeframe. pred_risk_level (predict_timeframe features timeframe) =
      py_round (min (max (if timeframe = ''15min'' then r
                          else if timeframe = ''30min'' then r * 1.2 else r * 1.5) 0) 1) 2"
    using predict_timeframe_risk_level by blast
  have 15: "pred_risk_level (predict_timeframe features ''15min'') = py_round (min (max (r * 1) 0) 1) 2"
    by (simp add: r)
  have 30: "pred_risk_level (predict_timeframe features ''30min'') = py_round (min (max (r * 1.2) 0) 1) 2"
    by (simp add: r)
  have 60: "pred_risk_level (predict_timeframe features ''60min'') = py_round (min (max (r * 1.5) 0) 1) 2"
    by (simp add: r)
  have a: "min (max (r * 1) 0) 1 \<le> min (max (r * 1.2) 0) 1"
    by (rule clamp_scaled_mono) simp_all
  have b: "min (max (r * 1.2) 0) 1 \<le> min (max (r * 1.5) 0) 1"
    by (rule clamp_scaled_mono) simp_all
  have c: "0 \<le> min (max (r * 1) 0) 1" "min (max (r * 1.5) 0) 1 \<le> 1" "0 \<le> min (max (r * 1.5) 0) 1"
     "min (max (r * 1) 0) 1 \<le> 1"
    by auto
  show ?thesis
    unfolding 15 30 60
    using py_round_mono[OF a, of 2] py_round_mono[OF b, of 2]
      py_round_range[OF c(1) c(4), of 2] py_round_range[OF c(3) c(2), of 2]
    by simp
qed

text \<open>A feature vector on which the three levels differ: 0.3, 0.36 and 0.45.\<close>

lemma predictor_risk_example:
  "map (\<lambda>timeframe. pred_risk_level (predict_timeframe
       \<lparr>feat_fhr_mean = 100, feat_fhr_std = 8, feat_fhr_min = 90, feat_fhr_max = 120,
        feat_fhr_trend = 0, feat_uc_mean = 10, feat_uc_max = 40, feat_uc_contractions = 1,
        feat_risk_score = 0\<rparr> timeframe)) [''15min'', ''30min'', ''60min''] = [0.3, 0.36, 0.45]"
  by code_simp

section \<open>Run detection\<close>

lemma maximal_runs_Nil [simp]: "maximal_runs p [] = []"
  by (simp add: maximal_runs.simps)

lemma maximal_runs_skip [simp]: "\<not> p x \<Longrightarrow> maximal_runs p (x # xs) = maximal_runs p xs"
  by (subst (1 2) maximal_runs.simps) simp

lemma maximal_runs_start:
  "p x \<Longrightarrow> maximal_runs p (x # xs) = (x # takeWhile p xs) # maximal_runs p (dropWhile p xs)"
  by (subst maximal_runs.simps) simp

lemma count_events_Nil [simp]: "count_events p [] = 0"
  by (simp add: count_events_def)

lemma count_events_skip [simp]: "\<not> p x \<Longrightarrow> count_events p (x # xs) = count_events p xs"
  by (simp add: count_events_def)

lemma count_events_start:
  "p x \<Longrightarrow> count_events p (x # xs) =
     (if 15 \<le> Suc (length (takeWhile p xs)) then 1 else 0) + count_events p (dropWhile p xs)"
  by (simp add: count_events_def maximal_runs_start)

lemma run_loop_count_events:
  "run_loop p events False run_length xs = events + count_events p xs"
  "run_loop p events True run_length xs =
     (if 15 \<le> run_length + length (takeWhile p xs) then events + 1 else events)
       + count_events p (dropWhile p xs)"
proof (induction xs arbitrary: events run_length)
  case Nil
  { case 1 show ?case by simp }
  { case 2 show ?case by simp }
next
  case (Cons x xs)
  { case 1 show ?case by (cases "p x") (simp_all add: Cons.IH count_events_start) }
  { case 2 show ?case by (cases "p x") (simp_all add: Cons.IH) }
qed

lemma accel_loop_run_loop:
  "accel_loop (Num b) threshold events in_run run_length xs =
     run_loop (\<lambda>fhr. b + of_int threshold \<le> fhr) events in_run run_length xs"
  by (induction xs arbitrary: events in_run run_length) simp_all

lemma decel_loop_run_loop:
  "decel_loop (Num b) threshold events in_run run_length xs =
     run_loop (\<lambda>fhr. fhr \<le> b - of_int threshold) events in_run run_length xs"
  by (induction xs arbitrary: events in_run run_length) simp_all

lemma detect_accelerations_count_events:
  "b \<noteq> 0 \<Longrightarrow> detect_accelerations fhr_series (Num b) ga_weeks =
     count_events (\<lambda>fhr. b + ga_threshold ga_weeks \<le> fhr) fhr_series"
  by (simp add: detect_accelerations_def accel_loop_run_loop run_loop_count_events ga_threshold_def)

lemma detect_decelerations_count_events:
  "b \<noteq> 0 \<Longrightarrow> detect_decelerations fhr_series (Num b) threshold =
     count_events (\<lambda>fhr. fhr \<le> b - of_int threshold) fhr_series"
  by (simp add: detect_decelerations_def decel_loop_run_loop run_loop_count_events)

text \<open>The maximal runs of a series by its shape.\<close>

lemma maximal_runs_prefix:
  "(\<And>x. x \<in> set pre \<Longrightarrow> \<not> p x) \<Longrightarrow> maximal_runs p (pre @ xs) = maximal_runs p xs"
  by (induction pre) simp_all

lemma maximal_runs_run:
  assumes "run \<noteq> []" "\<And>x. x \<in> set run \<Longrightarrow> p x" "post = [] \<or> \<not> p (hd post)"
  shows "maximal_runs p (run @ post) = run # maximal_runs p post"
proof -
  from assms(1) obtain x xs where run: "run = x # xs" by (cases run) auto
  have all: "\<forall>y \<in> set xs. p y" using assms(2) run by simp
  have tw: "takeWhile p (xs @ post) = xs"
  proof (cases post)
    case Nil then show ?thesis using all by simp
  next
    case (Cons y ys)
    with assms(3) have "\<not> p y" by simp
    with Cons all show ?thesis by simp
  qed
  have dw: "dropWhile p (xs @ post) = post"
  proof (cases post)
    case Nil then show ?thesis using all by simp
  next
    case (Cons y ys)
    with assms(3) have "\<not> p y" by simp
    with Cons all show ?thesis by simp
  qed
  have "p x" using assms(2) run by simp
  then show ?thesis unfolding run by (simp add: maximal_runs_start tw dw)
qed

lemma count_events_single_run:
  assumes "\<And>x. x \<in> set pre \<Longrightarrow> \<not> p x" "\<And>x. x \<in> set run \<Longrightarrow> p x" "\<And>x. x \<in> set post \<Longrightarrow> \<not> p x"
  shows "count_events p (pre @ run @ post) = (if 15 \<le> length run then 1 else 0)"
proof (cases "run = []")
  case True
  have "maximal_runs p (pre @ post) = maximal_runs p (post @ [])"
    using assms(1) by (simp add: maximal_runs_prefix)
  also have "\<dots> = []" using maximal_runs_prefix[of post p "[]"] assms(3) by simp
  finally show ?thesis using True by (simp add: count_events_def)
next
  case False
  have post: "post = [] \<or> \<not> p (hd post)" using assms(3) by (cases post) auto
  have "maximal_runs p post = maximal_runs p (post @ [])" by simp
  also have "\<dots> = []" using maximal_runs_prefix[of post p "[]"] assms(3) by simp
  finally have "maximal_runs p post = []" .
  moreover have "maximal_runs p (run @ post) = run # maximal_runs p post"
    using False assms(2) post by (rule maximal_runs_run)
  moreover have "maximal_runs p (pre @ run @ post) = maximal_runs p (run @ post)"
    using assms(1) by (rule maximal_runs_prefix)
  ultimately have "maximal_runs p (pre @ run @ post) = [run]"
    by simp
  then show ?thesis by (simp add: count_events_def)
qed

text \<open>
  Claim C5. For a baseline that is not zero, \<open>detect_accelerations\<close> returns the number of
  maximal contiguous runs of samples at or above the baseline plus the threshold that are at
  least 15 samples long, a run that reaches the end of the series included. In particular a
  series with one such run, between samples below the threshold or at the end of the series,
  gives 1 when the run has 15 samples or more and 0 when it has fewer, as with 14.
\<close>

theorem detect_accelerations_counts_runs:
  "(b \<noteq> 0 \<longrightarrow>
      detect_accelerations fhr_series (Num b) ga_weeks =
        count_events (\<lambda>fhr. b + ga_threshold ga_weeks \<le> fhr) fhr_series)
   \<and> (b \<noteq> 0 \<and> list_all (\<lambda>fhr. fhr < b + ga_threshold ga_weeks) pre
        \<and> list_all (\<lambda>fhr. b + ga_threshold ga_weeks \<le> fhr) run
        \<and> list_all (\<lambda>fhr. fhr < b + ga_threshold ga_weeks) post \<longrightarrow>
      detect_accelerations (pre @ run @ post) (Num b) ga_weeks = (if 15 \<le> length run then 1 else 0))"
proof (intro conjI impI)
  assume "b \<noteq> 0"
  then show "detect_accelerations fhr_series (Num b) ga_weeks =
        count_events (\<lambda>fhr. b + ga_threshold ga_weeks \<le> fhr) fhr_series"
    by (rule detect_accelerations_count_events)
next
  assume a: "b \<noteq> 0 \<and> list_all (\<lambda>fhr. fhr < b + ga_threshold ga_weeks) pre
        \<and> list_all (\<lambda>fhr. b + ga_threshold ga_weeks \<le> fhr) run
        \<and> list_all (\<lambda>fhr. fhr < b + ga_threshold ga_weeks) post"
  then have "count_events (\<lambda>fhr. b + ga_threshold ga_weeks \<le> fhr) (pre @ run @ post)
     = (if 15 \<le> length run then 1 else 0)"
    by (intro count_events_single_run) (auto simp: list_all_iff)
  with a show "detect_accelerations (pre @ run @ post) (Num b) ga_weeks = (if 15 \<le> length run then 1 else 0)"
    by (simp add: detect_accelerations_count_events)
qed

theorem detect_accelerations_counts_runs_witness:
  "detect_accelerations (replicate 5 140 @ replicate 14 160 @ [141]) (Num 140) 37 = 0
   \<and> detect_accelerations (replicate 5 140 @ replicate 15 160 @ [141]) (Num 140) 37 = 1
   \<and> detect_accelerations (replicate 5 140 @ replicate 15 160 @ []) (Num 140) 37 = 1"
  using detect_accelerations_counts_runs [of 140 "[]" 37 "replicate 5 140" "replicate 14 160" "[141]"]
    detect_accelerations_counts_runs [of 140 "[]" 37 "replicate 5 140" "replicate 15 160" "[141]"]
    detect_accelerations_counts_runs [of 140 "[]" 37 "replicate 5 140" "replicate 15 160" "[]"]
  by (simp add: ga_threshold_def list_all_iff)

section \<open>Decelerations in the classifiers\<close>

lemma deep_dip_baseline: "calc_baseline fhr_deep_dip 10 = Num 140"
  by code_simp

lemma deep_dip_events: "count_events (\<lambda>fhr. fhr \<le> 140 - 15) fhr_deep_dip = 1"
  by code_simp

lemma dip_baseline: "calc_baseline fhr_shallow_dip 10 = Num 140"
  by code_simp

lemma dip_claimed: "count_events (\<lambda>fhr. fhr \<le> 140 - ga_threshold 30) fhr_shallow_dip = 1"
  by code_simp

lemma dip_code: "detect_decelerations fhr_shallow_dip (Num 140) 15 = 0"
  by code_simp

lemma two_acc_baseline: "calc_baseline fhr_two_accelerations 10 = Num 145"
  by code_simp

lemma two_acc_variability: "calculate_variability fhr_two_accelerations = Num (1250 / 121)"
  by code_simp

lemma two_acc_accels: "detect_accelerations fhr_two_accelerations (Num 145) 37 = 2"
  by code_simp

lemma two_acc_decels: "detect_decelerations fhr_two_accelerations (Num 145) 15 = 0"
  by code_simp

lemma classify_figo_counts:
  "figo_accelerations (classify_figo fhr_series risk_factors ga_weeks) =
     detect_accelerations fhr_series (calc_baseline fhr_series 10) ga_weeks"
  "figo_decelerations (classify_figo fhr_series risk_factors ga_weeks) =
     detect_decelerations fhr_series (calc_baseline fhr_series 10) 15"
  by (simp_all add: classify_figo_def Let_def case_prod_beta)

lemma classify_nichd_counts:
  "nichd_accelerations (classify_nichd fhr_series risk_factors ga_weeks) =
     detect_accelerations fhr_series (calc_baseline fhr_series 10) ga_weeks"
  "dec_count (nichd_decelerations (classify_nichd fhr_series risk_factors ga_weeks)) =
     detect_decelerations fhr_series (calc_baseline fhr_series 10) 15"
  by (simp_all add: classify_nichd_def Let_def case_prod_beta)

lemma detect_decelerations_zero_baseline: "detect_decelerations fhr_series (Num 0) threshold = 0"
  by (simp add: detect_decelerations_def)

text \<open>
  Claim C6, amended. The classifiers detect decelerations as the maximal contiguous runs of
  samples at or below the baseline minus 15 that are at least 15 samples long, and report no
  event when the baseline is 0. The threshold is the fixed 15 of \<open>detect_decelerations\<close> at
  every gestational age; it is the threshold of \<open>detect_accelerations\<close> from 32 weeks on, and
  accelerations alone use the threshold that depends on the gestational age.
\<close>

theorem decelerations_fixed_threshold:
  "calc_baseline fhr_series 10 = Num b \<longrightarrow>
     figo_decelerations (classify_figo fhr_series risk_factors ga_weeks) =
       (if b = 0 then 0 else count_events (\<lambda>fhr. fhr \<le> b - 15) fhr_series)
     \<and> dec_count (nichd_decelerations (classify_nichd fhr_series risk_factors ga_weeks)) =
       (if b = 0 then 0 else count_events (\<lambda>fhr. fhr \<le> b - 15) fhr_series)
     \<and> (32 \<le> ga_weeks \<longrightarrow>
          figo_decelerations (classify_figo fhr_series risk_factors ga_weeks) =
            (if b = 0 then 0 else count_events (\<lambda>fhr. fhr \<le> b - ga_threshold ga_weeks) fhr_series))
     \<and> figo_accelerations (classify_figo fhr_series risk_factors ga_weeks) =
       (if b = 0 then 0 else count_events (\<lambda>fhr. b + ga_threshold ga_weeks \<le> fhr) fhr_series)"
proof
  assume b: "calc_baseline fhr_series 10 = Num b"
  have d: "detect_decelerations fhr_series (Num b) 15 =
       (if b = 0 then 0 else count_events (\<lambda>fhr. fhr \<le> b - 15) fhr_series)"
    using detect_decelerations_count_events[of b fhr_series 15]
    by (simp add: detect_decelerations_zero_baseline)
  have a: "detect_accelerations fhr_series (Num b) ga_weeks =
       (if b = 0 then 0 else count_events (\<lambda>fhr. b + ga_threshold ga_weeks \<le> fhr) fhr_series)"
    using detect_accelerations_count_events[of b fhr_series ga_weeks]
    by (simp add: detect_accelerations_def)
  have g: "32 \<le> ga_weeks \<Longrightarrow> ga_threshold ga_weeks = 15"
    by (simp add: ga_threshold_def)
  show "figo_decelerations (classify_figo fhr_series risk_factors ga_weeks) =
       (if b = 0 then 0 else count_events (\<lambda>fhr. fhr \<le> b - 15) fhr_series)
     \<and> dec_count (nichd_decelerations (classify_nichd fhr_series risk_factors ga_weeks)) =
       (if b = 0 then 0 else count_events (\<lambda>fhr. fhr \<le> b - 15) fhr_series)
     \<and> (32 \<le> ga_weeks \<longrightarrow>
          figo_decelerations (classify_figo fhr_series risk_factors ga_weeks) =
            (if b = 0 then 0 else count_events (\<lambda>fhr. fhr \<le> b - ga_threshold ga_weeks) fhr_series))
     \<and> figo_accelerations (classify_figo fhr_series risk_factors ga_weeks) =
       (if b = 0 then 0 else count_events (\<lambda>fhr. b + ga_threshold ga_weeks \<le> fhr) fhr_series)"
    unfolding classify_figo_counts classify_nichd_counts b
    using d a g by simp
qed

theorem decelerations_fixed_threshold_witness:
  "figo_decelerations (classify_figo fhr_deep_dip [] 30) = 1
   \<and> dec_count (nichd_decelerations (classify_nichd fhr_deep_dip [] 30)) = 1"
  using decelerations_fixed_threshold [of fhr_deep_dip 140 "[]" 30] deep_dip_baseline deep_dip_events
  by simp

text \<open>
  At 30 weeks the threshold of accelerations is 10. The series with 15 samples at 128 around
  a baseline of 140 has one run of 15 samples at or below 140 - 10, and the classifiers
  report no deceleration.
\<close>

theorem decelerations_ga_threshold_counterexample:
  "calc_baseline fhr_shallow_dip 10 = Num 140
   \<and> count_events (\<lambda>fhr. fhr \<le> 140 - ga_threshold 30) fhr_shallow_dip = 1
   \<and> figo_decelerations (classify_figo fhr_shallow_dip [] 30) = 0
   \<and> dec_count (nichd_decelerations (classify_nichd fhr_shallow_dip [] 30)) = 0"
  by (simp add: dip_baseline dip_claimed dip_code classify_figo_counts classify_nichd_counts)

section \<open>Classification of a reassuring trace\<close>

lemma reassuring_evaluations:
  "110 \<le> b \<Longrightarrow> b \<le> 160 \<Longrightarrow> evaluate_baseline (Num b) = ''reassuring''"
  "5 \<le> v \<Longrightarrow> v \<le> 25 \<Longrightarrow> classify_variability (Num v) = ''moderate''"
  "evaluate_variability w ''moderate'' = ''reassuring''"
  "2 \<le> accels \<Longrightarrow> evaluate_accelerations accels 20 = ''reassuring''"
  "evaluate_decelerations 0 = ''reassuring''"
  by (simp_all add: evaluate_baseline_def classify_variability_def evaluate_variability_def
        evaluate_accelerations_def evaluate_decelerations_def)

lemma category_one:
  "110 \<le> b \<Longrightarrow> b \<le> 160 \<Longrightarrow>
   classify_nichd_category (Num b) ''moderate'' accels 0 ''none'' = (''Category I'', 0)"
  by (simp add: classify_nichd_category_def)

lemma classify_figo_normal:
  assumes "calc_baseline fhr_series 10 = Num b" "110 \<le> b" "b \<le> 160"
    and "calculate_variability fhr_series = Num v" "5 \<le> v" "v \<le> 25"
    and "2 \<le> detect_accelerations fhr_series (Num b) ga_weeks"
    and "detect_decelerations fhr_series (Num b) 15 = 0"
  shows "figo_base_classification (classify_figo fhr_series risk_factors ga_weeks)
           = \<lparr>cls_label = ''Normal'', cls_code = 0\<rparr>"
    and "figo_final_classification (classify_figo fhr_series risk_factors ga_weeks)
           = \<lparr>cls_label = adj_adjusted_label (adjust_figo_classification ''Normal'' (calculate_risk_score risk_factors)),
               cls_code = adj_code (adjust_figo_classification ''Normal'' (calculate_risk_score risk_factors))\<rparr>"
    and "figo_label (classify_figo fhr_series risk_factors ga_weeks)
           = adj_adjusted_label (adjust_figo_classification ''Normal'' (calculate_risk_score risk_factors))"
    and "figo_code (classify_figo fhr_series risk_factors ga_weeks)
           = adj_code (adjust_figo_classification ''Normal'' (calculate_risk_score risk_factors))"
    and "ra_applied (figo_risk_adjustment (classify_figo fhr_series risk_factors ga_weeks))
           = adj_adjustment_applied (adjust_figo_classification ''Normal'' (calculate_risk_score risk_factors))"
  using assms
  by (simp_all add: classify_figo_def Let_def reassuring_evaluations)

lemma classify_nichd_category_one:
  assumes "calc_baseline fhr_series 10 = Num b" "110 \<le> b" "b \<le> 160"
    and "calculate_variability fhr_series = Num v" "5 \<le> v" "v \<le> 25"
    and "detect_decelerations fhr_series (Num b) 15 = 0"
  shows "nichd_base_classification (classify_nichd fhr_series risk_factors ga_weeks)
           = \<lparr>cls_label = ''Category I'', cls_code = 0\<rparr>"
    and "nichd_final_classification (classify_nichd fhr_series risk_factors ga_weeks)
           = \<lparr>cls_label = adj_adjusted_label (adjust_nichd_classification ''Category I'' (calculate_risk_score risk_factors)),
               cls_code = adj_code (adjust_nichd_classification ''Category I'' (calculate_risk_score risk_factors))\<rparr>"
    and "nichd_label (classify_nichd fhr_series risk_factors ga_weeks)
           = adj_adjusted_label (adjust_nichd_classification ''Category I'' (calculate_risk_score risk_factors))"
    and "nichd_code (classify_nichd fhr_series risk_factors ga_weeks)
           = adj_code (adjust_nichd_classification ''Category I'' (calculate_risk_score risk_factors))"
    and "ra_applied (nichd_risk_adjustment (classify_nichd fhr_series risk_factors ga_weeks))
           = adj_adjustment_applied (adjust_nichd_classification ''Category I'' (calculate_risk_score risk_factors))"
  using assms
  by (simp_all add: classify_nichd_def Let_def reassuring_evaluations category_one)

text \<open>
  Claim C3, amended. When the computed baseline lies in \<open>[110, 160]\<close>, the short-term
  variability lies in \<open>[5, 25]\<close>, at least 2 accelerations and no deceleration are detected,
  the base classification is Normal with code 0 for FIGO and Category I with code 0 for NICHD,
  for every set of risk factors. When the risk score of the risk factors is below 4, the final
  classification is the same and no escalation is applied; when it is 4 or more, the final
  classification is Suspicious with code 1 and Category II with code 1, by the escalation.
\<close>

theorem normal_trace_classification:
  "calc_baseline fhr_series 10 = Num b \<and> 110 \<le> b \<and> b \<le> 160
   \<and> calculate_variability fhr_series = Num v \<and> 5 \<le> v \<and> v \<le> 25
   \<and> 2 \<le> detect_accelerations fhr_series (Num b) ga_weeks
   \<and> detect_decelerations fhr_series (Num b) 15 = 0 \<longrightarrow>
     figo_base_classification (classify_figo fhr_series risk_factors ga_weeks)
       = \<lparr>cls_label = ''Normal'', cls_code = 0\<rparr>
     \<and> nichd_base_classification (classify_nichd fhr_series risk_factors ga_weeks)
       = \<lparr>cls_label = ''Category I'', cls_code = 0\<rparr>
     \<and> (calculate_risk_score risk_factors < 4 \<longrightarrow>
          figo_final_classification (classify_figo fhr_series risk_factors ga_weeks)
            = \<lparr>cls_label = ''Normal'', cls_code = 0\<rparr>
          \<and> figo_label (classify_figo fhr_series risk_factors ga_weeks) = ''Normal''
          \<and> figo_code (classify_figo fhr_series risk_factors ga_weeks) = 0
          \<and> \<not> ra_applied (figo_risk_adjustment (classify_figo fhr_series risk_factors ga_weeks))
          \<and> nichd_final_classification (classify_nichd fhr_series risk_factors ga_weeks)
            = \<lparr>cls_label = ''Category I'', cls_code = 0\<rparr>
          \<and> nichd_label (classify_nichd fhr_series risk_factors ga_weeks) = ''Category I''
          \<and> nichd_code (classify_nichd fhr_series risk_factors ga_weeks) = 0
          \<and> \<not> ra_applied (nichd_risk_adjustment (classify_nichd fhr_series risk_factors ga_weeks)))
     \<and> (4 \<le> calculate_risk_score risk_factors \<longrightarrow>
          figo_label (classify_figo fhr_series risk_factors ga_weeks) = ''Suspicious''
          \<and> figo_code (classify_figo fhr_series risk_factors ga_weeks) = 1
          \<and> ra_applied (figo_risk_adjustment (classify_figo fhr_series risk_factors ga_weeks))
          \<and> nichd_label (classify_nichd fhr_series risk_factors ga_weeks) = ''Category II''
          \<and> nichd_code (classify_nichd fhr_series risk_factors ga_weeks) = 1
          \<and> ra_applied (nichd_risk_adjustment (classify_nichd fhr_series risk_factors ga_weeks)))"
proof
  assume a: "calc_baseline fhr_series 10 = Num b \<and> 110 \<le> b \<and> b \<le> 160
   \<and> calculate_variability fhr_series = Num v \<and> 5 \<le> v \<and> v \<le> 25
   \<and> 2 \<le> detect_accelerations fhr_series (Num b) ga_weeks
   \<and> detect_decelerations fhr_series (Num b) 15 = 0"
  then have h: "calc_baseline fhr_series 10 = Num b" "110 \<le> b" "b \<le> 160"
    "calculate_variability fhr_series = Num v" "5 \<le> v" "v \<le> 25"
    "2 \<le> detect_accelerations fhr_series (Num b) ga_weeks"
    "detect_decelerations fhr_series (Num b) 15 = 0"
    by simp_all
  note f = classify_figo_normal[OF h, of risk_factors]
  note n = classify_nichd_category_one[OF h(1-6) h(8), of risk_factors ga_weeks]
  show "figo_base_classification (classify_figo fhr_series risk_factors ga_weeks)
       = \<lparr>cls_label = ''Normal'', cls_code = 0\<rparr>
     \<and> nichd_base_classification (classify_nichd fhr_series risk_factors ga_weeks)
       = \<lparr>cls_label = ''Category I'', cls_code = 0\<rparr>
     \<and> (calculate_risk_score risk_factors < 4 \<longrightarrow>
          figo_final_classification (classify_figo fhr_series risk_factors ga_weeks)
            = \<lparr>cls_label = ''Normal'', cls_code = 0\<rparr>
          \<and> figo_label (classify_figo fhr_series risk_factors ga_weeks) = ''Normal''
          \<and> figo_code (classify_figo fhr_series risk_factors ga_weeks) = 0
          \<and> \<not> ra_applied (figo_risk_adjustment (classify_figo fhr_series risk_factors ga_weeks))
          \<and> nichd_final_classification (classify_nichd fhr_series risk_factors ga_weeks)
            = \<lparr>cls_label = ''Category I'', cls_code = 0\<rparr>
          \<and> nichd_label (classify_nichd fhr_series risk_factors ga_weeks) = ''Category I''
          \<and> nichd_code (classify_nichd fhr_series risk_factors ga_weeks) = 0
          \<and> \<not> ra_applied (nichd_risk_adjustment (classify_nichd fhr_series risk_factors ga_weeks)))
     \<and> (4 \<le> calculate_risk_score risk_factors \<longrightarrow>
          figo_label (classify_figo fhr_series risk_factors ga_weeks) = ''Suspicious''
          \<and> figo_code (classify_figo fhr_series risk_factors ga_weeks) = 1
          \<and> ra_applied (figo_risk_adjustment (classify_figo fhr_series risk_factors ga_weeks))
          \<and> nichd_label (classify_nichd fhr_series risk_factors ga_weeks) = ''Category II''
          \<and> nichd_code (classify_nichd fhr_series risk_factors ga_weeks) = 1
          \<and> ra_applied (nichd_risk_adjustment (classify_nichd fhr_series risk_factors ga_weeks)))"
    unfolding f n adjust_figo_cases adjust_nichd_cases by simp
qed

lemma risk_score_examples:
  "calculate_risk_score [] = 0"
  "calculate_risk_score [(''preeclampsia'', True), (''diabetes'', True)] = 5"
  by (simp_all add: calculate_risk_score_def RISK_SCORES_def)

theorem normal_trace_classification_witness:
  "figo_label (classify_figo fhr_two_accelerations [] 37) = ''Normal''
   \<and> figo_code (classify_figo fhr_two_accelerations [] 37) = 0
   \<and> nichd_label (classify_nichd fhr_two_accelerations [] 37) = ''Category I''
   \<and> nichd_code (classify_nichd fhr_two_accelerations [] 37) = 0
   \<and> \<not> ra_applied (figo_risk_adjustment (classify_figo fhr_two_accelerations [] 37))"
  using normal_trace_classification [of fhr_two_accelerations 145 "1250 / 121" 37 "[]"]
    two_acc_baseline two_acc_variability two_acc_accels two_acc_decels risk_score_examples(1)
  by simp

text \<open>
  The example series has a baseline of 145, a variability of 1250/121, two accelerations and
  no deceleration. With preeclampsia and diabetes the risk score is 5, and the final
  classification is Suspicious with code 1 and Category II with code 1, escalated.
\<close>

theorem normal_trace_escalated_counterexample:
  "calc_baseline fhr_two_accelerations 10 = Num 145
   \<and> calculate_variability fhr_two_accelerations = Num (1250 / 121)
   \<and> detect_accelerations fhr_two_accelerations (Num 145) 37 = 2
   \<and> detect_decelerations fhr_two_accelerations (Num 145) 15 = 0
   \<and> figo_label (classify_figo fhr_two_accelerations
        [(''preeclampsia'', True), (''diabetes'', True)] 37) = ''Suspicious''
   \<and> figo_code (classify_figo fhr_two_accelerations
        [(''preeclampsia'', True), (''diabetes'', True)] 37) = 1
   \<and> ra_applied (figo_risk_adjustment (classify_figo fhr_two_accelerations
        [(''preeclampsia'', True), (''diabetes'', True)] 37))
   \<and> nichd_label (classify_nichd fhr_two_accelerations
        [(''preeclampsia'', True), (''diabetes'', True)] 37) = ''Category II''
   \<and> nichd_code (classify_nichd fhr_two_accelerations
        [(''preeclampsia'', True), (''diabetes'', True)] 37) = 1"
proof -
  have h: "calc_baseline fhr_two_accelerations 10 = Num 145" "(110 :: real) \<le> 145" "(145 :: real) \<le> 160"
    "calculate_variability fhr_two_accelerations = Num (1250 / 121)"
    "(5 :: real) \<le> 1250 / 121" "(1250 / 121 :: real) \<le> 25"
    "2 \<le> detect_accelerations fhr_two_accelerations (Num 145) 37"
    "detect_decelerations fhr_two_accelerations (Num 145) 15 = 0"
    by (simp_all add: two_acc_baseline two_acc_variability two_acc_accels two_acc_decels)
  note f = classify_figo_normal[OF h, of "[(''preeclampsia'', True), (''diabetes'', True)]"]
  note n = classify_nichd_category_one[OF h(1-6) h(8), of "[(''preeclampsia'', True), (''diabetes'', True)]" 37]
  show ?thesis
    unfolding f n risk_score_examples adjust_figo_cases adjust_nichd_cases
    by (simp add: two_acc_baseline two_acc_variability two_acc_accels two_acc_decels)
qed

section \<open>The predicted hypoxia risk\<close>

lemma index_sums:
  "2 * (\<Sum>i = 0..<n. real i) = real n * (real n - 1)"
  "6 * (\<Sum>i = 0..<n. (real i) ^ 2) = real n * (real n - 1) * (2 * real n - 1)"
  by (induction n) (simp_all add: algebra_simps power2_eq_square)

lemma index_spread_pos:
  assumes "2 \<le> n"
  shows "0 < real n * (\<Sum>i = 0..<n. (real i) ^ 2) - (\<Sum>i = 0..<n. real i) ^ 2"
proof -
  define X where "X = (\<Sum>i = 0..<n. real i)"
  define Q where "Q = (\<Sum>i = 0..<n. (real i) ^ 2)"
  have X: "2 * X = real n * (real n - 1)" and Q: "6 * Q = real n * (real n - 1) * (2 * real n - 1)"
    unfolding X_def Q_def by (rule index_sums)+
  have "12 * (real n * Q - X ^ 2) = 2 * real n * (6 * Q) - 3 * (2 * X) ^ 2"
    by (simp add: power2_eq_square)
  also have "\<dots> = (real n) ^ 2 * (real n - 1) * (real n + 1)"
    unfolding X Q by (simp add: power2_eq_square algebra_simps)
  also have "\<dots> > 0" using assms by simp
  finally show ?thesis unfolding X_def Q_def by simp
qed

lemma sum_centred_product:
  fixes f g :: "nat \<Rightarrow> real"
  shows "(\<Sum>i = 0..<n. (f i - a) * (g i - c))
       = (\<Sum>i = 0..<n. f i * g i) - c * (\<Sum>i = 0..<n. f i) - a * (\<Sum>i = 0..<n. g i) + real n * (a * c)"
proof -
  have "(\<Sum>i = 0..<n. (f i - a) * (g i - c)) = (\<Sum>i = 0..<n. f i * g i - c * f i - a * g i + a * c)"
    by (rule sum.cong) (simp_all add: algebra_simps)
  also have "\<dots> = (\<Sum>i = 0..<n. f i * g i) - (\<Sum>i = 0..<n. c * f i) - (\<Sum>i = 0..<n. a * g i) + real n * (a * c)"
    by (simp add: sum.distrib sum_subtractf)
  finally show ?thesis by (simp add: sum_distrib_left)
qed

lemma centred_sums:
  fixes y :: "nat \<Rightarrow> real"
  assumes "0 < n"
  defines "X \<equiv> (\<Sum>i = 0..<n. real i)" and "Y \<equiv> (\<Sum>i = 0..<n. y i)"
  shows "real n * (\<Sum>i = 0..<n. (real i - X / real n) * (y i - Y / real n))
           = real n * (\<Sum>i = 0..<n. real i * y i) - X * Y"
    and "real n * (\<Sum>i = 0..<n. (real i - X / real n) ^ 2)
           = real n * (\<Sum>i = 0..<n. (real i) ^ 2) - X ^ 2"
proof -
  have n: "real n \<noteq> 0" using assms by simp
  define a where "a = X / real n"
  define c where "c = Y / real n"
  have a: "real n * a = X" and c: "real n * c = Y" using n by (simp_all add: a_def c_def)
  have "real n * (\<Sum>i = 0..<n. (real i - a) * (y i - c))
      = real n * (\<Sum>i = 0..<n. real i * y i) - (real n * c) * X - (real n * a) * Y + (real n * a) * (real n * c)"
    unfolding sum_centred_product X_def Y_def by (simp add: algebra_simps)
  then show "real n * (\<Sum>i = 0..<n. (real i - X / real n) * (y i - Y / real n))
           = real n * (\<Sum>i = 0..<n. real i * y i) - X * Y"
    unfolding a c unfolding a_def c_def by simp
  have "real n * (\<Sum>i = 0..<n. (real i - a) * (real i - a))
      = real n * (\<Sum>i = 0..<n. real i * real i) - (real n * a) * X - (real n * a) * X + (real n * a) * (real n * a)"
    unfolding sum_centred_product X_def by (simp add: algebra_simps)
  then show "real n * (\<Sum>i = 0..<n. (real i - X / real n) ^ 2)
           = real n * (\<Sum>i = 0..<n. (real i) ^ 2) - X ^ 2"
    unfolding a unfolding a_def power2_eq_square by simp
qed

lemma risk_trend_sums:
  fixes ys :: "real list"
  defines "n \<equiv> length ys"
  shows "real_of_int (sum_list (map int [0 ..< n])) = (\<Sum>i = 0..<n. real i)"
    and "sum_list ys = (\<Sum>i = 0..<n. ys ! i)"
    and "sum_list (map (\<lambda>i. real_of_int (map int [0 ..< n] ! i) * ys ! i) [0 ..< n])
           = (\<Sum>i = 0..<n. real i * ys ! i)"
    and "real_of_int (sum_list (map (\<lambda>i. (map int [0 ..< n] ! i) ^ 2) [0 ..< n]))
           = (\<Sum>i = 0..<n. (real i) ^ 2)"
proof -
  show "real_of_int (sum_list (map int [0 ..< n])) = (\<Sum>i = 0..<n. real i)"
    by (simp add: interv_sum_list_conv_sum_set_nat)
  show "sum_list ys = (\<Sum>i = 0..<n. ys ! i)"
    unfolding n_def by (rule sum_list_sum_nth)
  have "sum_list (map (\<lambda>i. real_of_int (map int [0 ..< n] ! i) * ys ! i) [0 ..< n])
          = (\<Sum>i = 0..<n. real_of_int (map int [0 ..< n] ! i) * ys ! i)"
    by (simp add: interv_sum_list_conv_sum_set_nat)
  also have "\<dots> = (\<Sum>i = 0..<n. real i * ys ! i)"
    by (rule sum.cong) simp_all
  finally show "sum_list (map (\<lambda>i. real_of_int (map int [0 ..< n] ! i) * ys ! i) [0 ..< n])
           = (\<Sum>i = 0..<n. real i * ys ! i)" .
  have "real_of_int (sum_list (map (\<lambda>i. (map int [0 ..< n] ! i) ^ 2) [0 ..< n]))
          = (\<Sum>i = 0..<n. real_of_int ((map int [0 ..< n] ! i) ^ 2))"
    by (simp add: interv_sum_list_conv_sum_set_nat)
  also have "\<dots> = (\<Sum>i = 0..<n. (real i) ^ 2)"
    by (rule sum.cong) simp_all
  finally show "real_of_int (sum_list (map (\<lambda>i. (map int [0 ..< n] ! i) ^ 2) [0 ..< n]))
           = (\<Sum>i = 0..<n. (real i) ^ 2)" .
qed

text \<open>
  The slope that the code computes is the least-squares slope, and for two values or more the
  spread of the indices is positive: the guard against a zero denominator never fires.
\<close>

lemma calculate_risk_trend_ols:
  assumes "2 \<le> length ys"
  shows "calculate_risk_trend ys = clamp (ols_slope ys * 10) (- 1) 1"
    and "0 < (\<Sum>i\<leftarrow>[0 ..< length ys]. (real i - (\<Sum>i\<leftarrow>[0 ..< length ys]. real i) / real (length ys)) ^ 2)"
proof -
  define n where "n = length ys"
  define X where "X = (\<Sum>i = 0..<n. real i)"
  define Y where "Y = (\<Sum>i = 0..<n. ys ! i)"
  define P where "P = (\<Sum>i = 0..<n. real i * ys ! i)"
  define Q where "Q = (\<Sum>i = 0..<n. (real i) ^ 2)"
  have n: "2 \<le> n" "0 < n" "real n \<noteq> 0" using assms by (auto simp: n_def)
  note sums = risk_trend_sums[of ys, folded n_def]
  have pos: "0 < real n * Q - X ^ 2"
    unfolding Q_def X_def using n(1) by (rule index_spread_pos)
  define D where "D = int n * sum_list (map (\<lambda>i. (map int [0 ..< n] ! i) ^ 2) [0 ..< n])
                 - (sum_list (map int [0 ..< n])) ^ 2"
  have den: "real_of_int D = real n * Q - X ^ 2"
    by (simp add: D_def sums X_def Q_def)
  have nz: "D \<noteq> 0"
  proof
    assume "D = 0"
    then have "real_of_int D = 0" by (simp only: of_int_0)
    with den pos show False by simp
  qed
  have code: "calculate_risk_trend ys = max (- 1) (min 1 ((real n * P - X * Y) / (real n * Q - X ^ 2) * 10))"
    unfolding calculate_risk_trend_def Let_def n_def[symmetric] D_def[symmetric]
    using n(1) nz by (simp only: den sums X_def[symmetric] Y_def[symmetric] P_def[symmetric]) simp
  have num': "real n * (\<Sum>i = 0..<n. (real i - X / real n) * (ys ! i - Y / real n)) = real n * P - X * Y"
    unfolding X_def Y_def P_def using n(2) by (rule centred_sums(1))
  have den': "real n * (\<Sum>i = 0..<n. (real i - X / real n) ^ 2) = real n * Q - X ^ 2"
    unfolding X_def Q_def using n(2) by (rule centred_sums(2))
  have ols: "ols_slope ys = (\<Sum>i = 0..<n. (real i - X / real n) * (ys ! i - Y / real n))
                             / (\<Sum>i = 0..<n. (real i - X / real n) ^ 2)"
    unfolding ols_slope_def Let_def n_def[symmetric]
    by (simp add: interv_sum_list_conv_sum_set_nat sums(2) X_def Y_def)
  also have "\<dots> = (real n * (\<Sum>i = 0..<n. (real i - X / real n) * (ys ! i - Y / real n)))
                             / (real n * (\<Sum>i = 0..<n. (real i - X / real n) ^ 2))"
    using n(3) by simp
  finally have "ols_slope ys = (real n * P - X * Y) / (real n * Q - X ^ 2)"
    unfolding num' den' .
  with code show "calculate_risk_trend ys = clamp (ols_slope ys * 10) (- 1) 1"
    by (simp add: clamp_def)
  have "0 < real n * (\<Sum>i = 0..<n. (real i - X / real n) ^ 2)"
    unfolding den' by (rule pos)
  then have "0 < (\<Sum>i = 0..<n. (real i - X / real n) ^ 2)"
    using n(2) by (simp add: zero_less_mult_iff)
  then show "0 < (\<Sum>i\<leftarrow>[0 ..< length ys]. (real i - (\<Sum>i\<leftarrow>[0 ..< length ys]. real i) / real (length ys)) ^ 2)"
    by (simp add: interv_sum_list_conv_sum_set_nat X_def n_def)
qed

lemma horizon_multiplier_cases:
  "horizon_multiplier timeframe = Some m \<Longrightarrow>
     (timeframe = ''15min'' \<and> m = 1.1) \<or> (timeframe = ''30min'' \<and> m = 1.3)
     \<or> (timeframe = ''60min'' \<and> m = 1.6)"
  by (simp add: horizon_multiplier_def split: if_splits)

lemma time_multiplier_horizon:
  assumes "horizon_multiplier timeframe = Some m"
  shows "(if timeframe = ''15min'' then 1.1 else if timeframe = ''30min'' then 1.3 else 1.6) = m"
  using horizon_multiplier_cases[OF assms] by auto

lemma predict_hypoxia_risk_clamp:
  assumes "2 \<le> length history" "horizon_multiplier timeframe = Some m"
  shows "predict_hypoxia_risk_for_timeframe current_risk history timeframe
           = clamp (current_risk * (1 + risk_trend (map pt_risk history) * m)) 0 1"
proof -
  let ?recent = "map pt_risk (drop (length history - 10) history)"
  have len: "2 \<le> length ?recent" using assms(1) by simp
  have "calculate_risk_trend ?recent = clamp (ols_slope ?recent * 10) (- 1) 1"
    using len by (rule calculate_risk_trend_ols(1))
  then have trend: "calculate_risk_trend ?recent = risk_trend (map pt_risk history)"
    by (simp add: risk_trend_def drop_map)
  have ne: "\<not> (history = [] \<or> length history < 2)" using assms(1) by auto
  show ?thesis
    unfolding predict_hypoxia_risk_for_timeframe_def Let_def if_not_P[OF ne] trend
      time_multiplier_horizon[OF assms(2)]
    by (simp add: clamp_def)
qed

text \<open>
  Claim C4. For a history of at least 2 points and each of the horizons 15min, 30min and
  60min with its multiplier 1.1, 1.3 and 1.6, the current risk is the risk of the last point,
  and the predicted risk, which a forecast carries, is the current risk times one plus the
  trend times the multiplier, clamped to \<open>[0, 1]\<close>; the trend is the least-squares slope of the
  last ten points at most, times ten, clamped to \<open>[-1, 1]\<close>. The spread of the indices, by which
  the slope divides, is positive.
\<close>

theorem predicted_hypoxia_risk_formula:
  "2 \<le> length history \<and> horizon_multiplier timeframe = Some m \<longrightarrow>
     current_hypoxia_risk history = pt_risk (last history)
     \<and> predict_hypoxia_risk_for_timeframe (current_hypoxia_risk history) history timeframe
          = clamp (pt_risk (last history) * (1 + risk_trend (map pt_risk history) * m)) 0 1
     \<and> (generate_forecast_with_hypoxia_risk figo_result nichd_result ai_result history timeframe = Inr fc
          \<longrightarrow> fc_hypoxia_risk fc
                = clamp (pt_risk (last history) * (1 + risk_trend (map pt_risk history) * m)) 0 1)
     \<and> 0 < (\<Sum>i\<leftarrow>[0 ..< min 10 (length history)].
               (real i - (\<Sum>i\<leftarrow>[0 ..< min 10 (length history)]. real i)
                           / real (min 10 (length history))) ^ 2)"
proof
  assume a: "2 \<le> length history \<and> horizon_multiplier timeframe = Some m"
  then have h: "2 \<le> length history" and m: "horizon_multiplier timeframe = Some m" by simp_all
  have cur: "current_hypoxia_risk history = pt_risk (last history)"
    using h by (auto simp: current_hypoxia_risk_def)
  have pred: "predict_hypoxia_risk_for_timeframe (current_hypoxia_risk history) history timeframe
          = clamp (pt_risk (last history) * (1 + risk_trend (map pt_risk history) * m)) 0 1"
    unfolding predict_hypoxia_risk_clamp[OF h m] cur ..
  have gen: "generate_forecast_with_hypoxia_risk figo_result nichd_result ai_result history timeframe = Inr fc
          \<longrightarrow> fc_hypoxia_risk fc
                = clamp (pt_risk (last history) * (1 + risk_trend (map pt_risk history) * m)) 0 1"
    unfolding generate_forecast_with_hypoxia_risk_def Let_def pred
    by (auto split: sum.splits)
  let ?recent = "map pt_risk (drop (length history - 10) history)"
  have len: "length ?recent = min 10 (length history)" by auto
  have "2 \<le> length ?recent" using h by simp
  then have "0 < (\<Sum>i\<leftarrow>[0 ..< length ?recent].
               (real i - (\<Sum>i\<leftarrow>[0 ..< length ?recent]. real i) / real (length ?recent)) ^ 2)"
    by (rule calculate_risk_trend_ols(2))
  then have spread: "0 < (\<Sum>i\<leftarrow>[0 ..< min 10 (length history)].
               (real i - (\<Sum>i\<leftarrow>[0 ..< min 10 (length history)]. real i)
                           / real (min 10 (length history))) ^ 2)"
    unfolding len .
  from cur pred gen spread
  show "current_hypoxia_risk history = pt_risk (last history)
     \<and> predict_hypoxia_risk_for_timeframe (current_hypoxia_risk history) history timeframe
          = clamp (pt_risk (last history) * (1 + risk_trend (map pt_risk history) * m)) 0 1
     \<and> (generate_forecast_with_hypoxia_risk figo_result nichd_result ai_result history timeframe = Inr fc
          \<longrightarrow> fc_hypoxia_risk fc
                = clamp (pt_risk (last history) * (1 + risk_trend (map pt_risk history) * m)) 0 1)
     \<and> 0 < (\<Sum>i\<leftarrow>[0 ..< min 10 (length history)].
               (real i - (\<Sum>i\<leftarrow>[0 ..< min 10 (length history)]. real i)
                           / real (min 10 (length history))) ^ 2)"
    by (intro conjI)
qed

lemma risk_trend_example: "risk_trend [0.30, 0.31, 0.32] = 0.1"
  by code_simp

lemma horizon_multiplier_values:
  "horizon_multiplier ''15min'' = Some 1.1"
  "horizon_multiplier ''30min'' = Some 1.3"
  "horizon_multiplier ''60min'' = Some 1.6"
  by (simp_all add: horizon_multiplier_def)

theorem predicted_hypoxia_risk_formula_witness:
  "predict_hypoxia_risk_for_timeframe 0.32
     [\<lparr>pt_time = 60, pt_risk = 0.30\<rparr>, \<lparr>pt_time = 120, pt_risk = 0.31\<rparr>, \<lparr>pt_time = 180, pt_risk = 0.32\<rparr>]
     ''30min'' = 0.3616"
proof -
  let ?h = "[\<lparr>pt_time = 60, pt_risk = 0.30\<rparr>, \<lparr>pt_time = 120, pt_risk = 0.31\<rparr>,
             \<lparr>pt_time = 180, pt_risk = 0.32\<rparr>]"
  have hyp: "2 \<le> length ?h \<and> horizon_multiplier ''30min'' = Some 1.3"
    by (simp add: horizon_multiplier_values)
  have cur: "current_hypoxia_risk ?h = 0.32"
    by (simp add: current_hypoxia_risk_def)
  have last: "pt_risk (last ?h) = 0.32"
    by simp
  have tr: "risk_trend (map pt_risk ?h) = 0.1"
    using risk_trend_example by simp
  have "predict_hypoxia_risk_for_timeframe (current_hypoxia_risk ?h) ?h ''30min''
          = clamp (pt_risk (last ?h) * (1 + risk_trend (map pt_risk ?h) * 1.3)) 0 1"
    by (rule conjunct1 [OF conjunct2 [OF predicted_hypoxia_risk_formula [of ?h "''30min''" "1.3", THEN mp, OF hyp]]])
  then show ?thesis
    unfolding cur last tr by (simp add: clamp_def)
qed

end
